theory Spec2Isabelle
  imports Main
begin

section \<open>Text\<close>

text \<open>
  Python text is modelled as a list of characters, each read as a code point in the range
  0 to 255. The functions below are the string methods that \<open>setup.py\<close> calls.
\<close>

type_synonym path = string

text \<open>\<open>string.whitespace\<close>: space, tab, line feed, carriage return, vertical tab, form feed.\<close>

definition string_whitespace :: string where
  "string_whitespace = [CHR '' '', CHR 0x09, CHR 0x0A, CHR 0x0D, CHR 0x0B, CHR 0x0C]"

text \<open>
  \<open>str.isspace\<close> on one character, which decides what \<open>strip\<close>, \<open>rstrip\<close> and
  \<open>split\<close> remove: the code points 9 to 13, 28 to 32, 133 and 160.
\<close>

definition isspace :: "char \<Rightarrow> bool" where
  "isspace c =
     (let n = (of_char c :: nat)
      in (9 \<le> n \<and> n \<le> 13) \<or> (28 \<le> n \<and> n \<le> 32) \<or> n = 133 \<or> n = 160)"

definition str_rstrip :: "string \<Rightarrow> string" where
  "str_rstrip s = rev (dropWhile isspace (rev s))"

definition str_lstrip :: "string \<Rightarrow> string" where
  "str_lstrip s = dropWhile isspace s"

definition str_strip :: "string \<Rightarrow> string" where
  "str_strip s = str_lstrip (str_rstrip s)"

text \<open>\<open>str.split()\<close> without a separator: the maximal runs of non-space characters.\<close>

fun split_from :: "string \<Rightarrow> string \<Rightarrow> string list" where
  "split_from cur [] = (if cur = [] then [] else [cur])"
| "split_from cur (c # cs) =
     (if isspace c then (if cur = [] then split_from [] cs else cur # split_from [] cs)
      else split_from (cur @ [c]) cs)"

definition str_split :: "string \<Rightarrow> string list" where
  "str_split s = split_from [] s"

fun str_join :: "string \<Rightarrow> string list \<Rightarrow> string" where
  "str_join sep [] = []"
| "str_join sep [x] = x"
| "str_join sep (x # y # ys) = x @ sep @ str_join sep (y # ys)"

text \<open>
  \<open>repr\<close> of a string: the quote is a double quote when the text holds a single quote and
  no double quote, a single quote otherwise; the quote and the backslash are escaped with a
  backslash, tab, line feed and carriage return are written \<open>\t\<close>, \<open>\n\<close>, \<open>\r\<close>, and
  every other character that is not printable is written \<open>\xhh\<close>.
\<close>

definition hexdigit :: "nat \<Rightarrow> char" where
  "hexdigit n = ''0123456789abcdef'' ! (n mod 16)"

definition isprintable :: "char \<Rightarrow> bool" where
  "isprintable c =
     (let n = (of_char c :: nat) in (32 \<le> n \<and> n \<le> 126) \<or> (161 \<le> n \<and> n \<noteq> 173))"

definition repr_char :: "char \<Rightarrow> char \<Rightarrow> string" where
  "repr_char q c =
     (if c = q \<or> c = CHR 0x5C then [CHR 0x5C, c]
      else if c = CHR 0x09 then [CHR 0x5C, CHR ''t'']
      else if c = CHR 0x0A then [CHR 0x5C, CHR ''n'']
      else if c = CHR 0x0D then [CHR 0x5C, CHR ''r'']
      else if isprintable c then [c]
      else [CHR 0x5C, CHR ''x'', hexdigit (of_char c div 16), hexdigit (of_char c)])"

definition repr :: "string \<Rightarrow> string" where
  "repr s =
     (let q = (if CHR 0x27 \<in> set s \<and> CHR 0x22 \<notin> set s then CHR 0x22 else CHR 0x27)
      in q # concat (map (repr_char q) s) @ [q])"

text \<open>
  Reading a file opened in text mode translates \<open>\r\n\<close> and a lone \<open>\r\<close> to \<open>\n\<close>;
  iterating over it yields the lines, each with its line feed, and a last line without
  one when the text does not end in a line feed.
\<close>

fun universal_newlines :: "string \<Rightarrow> string" where
  "universal_newlines [] = []"
| "universal_newlines (c # cs) =
     (if c = CHR 0x0D then
        (case cs of
           [] \<Rightarrow> [CHR 0x0A]
         | d # ds \<Rightarrow> if d = CHR 0x0A then CHR 0x0A # universal_newlines ds
                    else CHR 0x0A # universal_newlines cs)
      else c # universal_newlines cs)"

fun lines_from :: "string \<Rightarrow> string \<Rightarrow> string list" where
  "lines_from cur [] = (if cur = [] then [] else [cur])"
| "lines_from cur (c # cs) =
     (if c = CHR 0x0A then (cur @ [c]) # lines_from [] cs else lines_from (cur @ [c]) cs)"

definition file_lines :: "string \<Rightarrow> string list" where
  "file_lines s = lines_from [] (universal_newlines s)"

section \<open>Constants of the script\<close>

definition CONFIG_FILENAME :: string where
  "CONFIG_FILENAME = ''.zshrc-base.zsh''"

definition CONFIG_CONTENTS :: string where
  "CONFIG_CONTENTS = concat (map (\<lambda>l. l @ [CHR 0x0A])
     ['''',
      ''# Andy's base zsh config'',
      '''',
      ''# Run the following command to install or update this config:'',
      ''# python3 <(curl -sLH 'Cache-Control: no-cache' https://raw.githubusercontent.com/AndyBarron/shell/main/setup.py)'',
      '''',
      ''# init antigen'',
      ''source ~/.antigen.zsh'',
      '''',
      ''# init oh-my-zsh'',
      ''antigen use oh-my-zsh'',
      '''',
      ''# default oh-my-zsh plugins'',
      ''antigen bundle git'',
      ''antigen bundle asdf'',
      ''antigen bundle kubectl'',
      '''',
      ''# third-party oh-my-zsh plugins'',
      ''antigen bundle zsh-users/zsh-autosuggestions'',
      ''ZSH_AUTOSUGGEST_STRATEGY=(completion history)'',
      ''ZSH_AUTOSUGGEST_USE_ASYNC=true'',
      '''',
      ''antigen bundle zsh-users/zsh-completions'',
      ''antigen bundle zsh-users/zsh-syntax-highlighting # must be last'',
      '''',
      ''# specify theme'',
      ''antigen theme romkatv/powerlevel10k'',
      '''',
      ''# apply config'',
      ''antigen apply'',
      '''',
      ''# my settings :)'',
      ''export VISUAL=nvim''])"

definition REQUIRED_TOOLS :: "string list" where
  "REQUIRED_TOOLS = [''zsh'', ''git'', ''neovim'', ''byobu'']"

section \<open>The process and its surroundings\<close>

text \<open>
  What the script prints and which programs it starts is recorded, in order, in a trace.
  \<open>Print s\<close> is one call of \<open>print\<close> that writes \<open>s\<close> and a line feed;
  \<open>Spawn argv\<close> is one call into \<open>subprocess\<close> with that argument vector.
\<close>

datatype event = Print string | Spawn "string list"

datatype node = File string | Dir

datatype os_error = FileNotFoundError | NotADirectoryError | IsADirectoryError | PermissionError

datatype exc =
    OSError os_error
  | CalledProcessError int
  | UnicodeDecodeError
  | KeyError string
  | IndexError
  | SystemExit string

text \<open>
  The state: the working directory of the process, the module-level list \<open>_stack\<close>, the
  file system (what is at each path: a file with its text, a directory, or nothing), the
  environment variables, and the trace. Permissions and parent directories are not modelled:
  an operation on a path depends only on what is at that path.
\<close>

record world =
  cwd :: path
  stack :: "path list"
  fs :: "path \<rightharpoonup> node"
  environ :: "string \<rightharpoonup> string"
  trace :: "event list"

text \<open>
  A child process either cannot be started, or runs and exits with a status, having written
  some standard output and left the file system in some state. Its standard output is given
  as the text that decoding it as UTF-8 yields, \<open>None\<close> when it is not valid UTF-8.
  A child cannot change the parent's working directory, variables or \<open>_stack\<close>.
\<close>

datatype proc_result =
    NotStarted os_error
  | Exited int "string option" "path \<rightharpoonup> node"

text \<open>
  What the script gets from outside: how a program started with an argument vector, in a
  working directory, with an environment, on a file system behaves; what \<open>shutil.which\<close>
  finds; and the string of \<open>Path.home()\<close>.
\<close>

record system =
  spawn :: "string list \<Rightarrow> path \<Rightarrow> (string \<rightharpoonup> string) \<Rightarrow> (path \<rightharpoonup> node) \<Rightarrow> proc_result"
  which :: "string \<Rightarrow> (string \<rightharpoonup> string) \<Rightarrow> (path \<rightharpoonup> node) \<Rightarrow> path option"
  home :: path

text \<open>
  A statement returns a value or raises, and leaves a state either way.
\<close>

type_synonym 'a result = "(exc + 'a) \<times> world"

definition and_then :: "'a result \<Rightarrow> ('a \<Rightarrow> world \<Rightarrow> 'b result) \<Rightarrow> 'b result" where
  "and_then m f = (case m of (Inl e, w) \<Rightarrow> (Inl e, w) | (Inr x, w) \<Rightarrow> f x w)"

text \<open>
  \<open>try: body finally: fin\<close>: \<open>fin\<close> runs whether \<open>body\<close> returned or raised; an exception
  of \<open>fin\<close> replaces the outcome of \<open>body\<close>, otherwise the outcome of \<open>body\<close> stands.
\<close>

definition try_finally ::
  "(world \<Rightarrow> 'a result) \<Rightarrow> (world \<Rightarrow> unit result) \<Rightarrow> world \<Rightarrow> 'a result" where
  "try_finally body fin w =
     (case body w of (r, w1) \<Rightarrow>
        (case fin w1 of (Inl e, w2) \<Rightarrow> (Inl e, w2) | (Inr u, w2) \<Rightarrow> (r, w2)))"

definition py_print :: "string list \<Rightarrow> world \<Rightarrow> unit result" where
  "py_print args w = (Inr (), w\<lparr>trace := trace w @ [Print (str_join '' '' args)]\<rparr>)"

definition path_join :: "path \<Rightarrow> string \<Rightarrow> path" where
  "path_join d name = (if d = ''/'' then d @ name else d @ ''/'' @ name)"

definition is_dir :: "path \<Rightarrow> world \<Rightarrow> bool" where
  "is_dir p w = (fs w p = Some Dir)"

definition getcwd :: "world \<Rightarrow> path result" where
  "getcwd w = (if fs w (cwd w) = Some Dir then (Inr (cwd w), w)
               else (Inl (OSError FileNotFoundError), w))"

definition chdir :: "path \<Rightarrow> world \<Rightarrow> unit result" where
  "chdir d w =
     (case fs w d of
        None \<Rightarrow> (Inl (OSError FileNotFoundError), w)
      | Some (File s) \<Rightarrow> (Inl (OSError NotADirectoryError), w)
      | Some Dir \<Rightarrow> (Inr (), w\<lparr>cwd := d\<rparr>))"

definition read_text :: "path \<Rightarrow> world \<Rightarrow> string result" where
  "read_text p w =
     (case fs w p of
        None \<Rightarrow> (Inl (OSError FileNotFoundError), w)
      | Some Dir \<Rightarrow> (Inl (OSError IsADirectoryError), w)
      | Some (File s) \<Rightarrow> (Inr s, w))"

definition write_text :: "path \<Rightarrow> string \<Rightarrow> world \<Rightarrow> unit result" where
  "write_text p s w =
     (case fs w p of
        Some Dir \<Rightarrow> (Inl (OSError IsADirectoryError), w)
      | _ \<Rightarrow> (Inr (), w\<lparr>fs := (fs w)(p \<mapsto> File s)\<rparr>))"

definition append_text :: "path \<Rightarrow> string \<Rightarrow> world \<Rightarrow> unit result" where
  "append_text p s w =
     (case fs w p of
        Some Dir \<Rightarrow> (Inl (OSError IsADirectoryError), w)
      | None \<Rightarrow> (Inr (), w\<lparr>fs := (fs w)(p \<mapsto> File s)\<rparr>)
      | Some (File old) \<Rightarrow> (Inr (), w\<lparr>fs := (fs w)(p \<mapsto> File (old @ s))\<rparr>))"

text \<open>
  \<open>subprocess.run(parts)\<close> and the process part of \<open>subprocess.check_output(parts)\<close>:
  the call is recorded, the program is started in the current directory, and what it did
  to the file system stays, whatever its exit status.
\<close>

definition subprocess_run :: "system \<Rightarrow> string list \<Rightarrow> world \<Rightarrow> (int \<times> string option) result" where
  "subprocess_run X parts w =
     (let w1 = w\<lparr>trace := trace w @ [Spawn parts]\<rparr>
      in case spawn X parts (cwd w) (environ w) (fs w) of
           NotStarted e \<Rightarrow> (Inl (OSError e), w1)
         | Exited status out fs' \<Rightarrow> (Inr (status, out), w1\<lparr>fs := fs'\<rparr>))"

section \<open>The functions of setup.py\<close>

definition esc :: "string \<Rightarrow> string" where
  "esc s = (let has_whitespace = list_ex (\<lambda>c. c \<in> set string_whitespace) s
            in if has_whitespace then repr s else s)"

definition cmd :: "system \<Rightarrow> string list \<Rightarrow> world \<Rightarrow> unit result" where
  "cmd X parts w =
     and_then (py_print (''RUN:'' # map esc parts) w) (\<lambda>u w1.
     and_then (subprocess_run X parts w1) (\<lambda>completed w2.
     (Inr (), w2)))"

definition cmd_output :: "system \<Rightarrow> string list \<Rightarrow> world \<Rightarrow> string result" where
  "cmd_output X parts w =
     and_then (py_print (''RUN:'' # map esc parts) w) (\<lambda>u w1.
     and_then (subprocess_run X parts w1) (\<lambda>(status, out) w2.
       if status \<noteq> 0 then (Inl (CalledProcessError status), w2)
       else (case out of
               None \<Rightarrow> (Inl UnicodeDecodeError, w2)
             | Some text \<Rightarrow> (Inr (str_strip text), w2))))"

definition pushd :: "path \<Rightarrow> world \<Rightarrow> unit result" where
  "pushd d w =
     and_then (getcwd w) (\<lambda>here w1.
     chdir d (w1\<lparr>stack := stack w1 @ [here]\<rparr>))"

definition popd :: "world \<Rightarrow> unit result" where
  "popd w =
     (if stack w = [] then (Inl IndexError, w)
      else chdir (last (stack w)) (w\<lparr>stack := butlast (stack w)\<rparr>))"

text \<open>
  The paths under the home directory that \<open>main\<close> builds with \<open>Path.home() / name\<close>.
\<close>

definition asdf_path :: "system \<Rightarrow> path" where
  "asdf_path X = path_join (home X) ''.asdf''"

definition zshrc_path :: "system \<Rightarrow> path" where
  "zshrc_path X = path_join (home X) ''.zshrc''"

definition ssh_dir_path :: "system \<Rightarrow> path" where
  "ssh_dir_path X = path_join (home X) ''.ssh''"

definition antigen_path :: "system \<Rightarrow> path" where
  "antigen_path X = path_join (home X) ''.antigen.zsh''"

definition config_path :: "system \<Rightarrow> path" where
  "config_path X = path_join (home X) CONFIG_FILENAME"

definition zshrc_line :: string where
  "zshrc_line = ''source ~/'' @ CONFIG_FILENAME"

text \<open>
  \<open>main\<close>, one definition for each of its blocks, in the order of the source.
  Lines 83 to 85: the required tools.
\<close>

definition install_tools :: "system \<Rightarrow> world \<Rightarrow> unit result" where
  "install_tools X w =
     and_then (py_print [''Installing required tools: '' @ str_join '', '' REQUIRED_TOOLS] w) (\<lambda>u w1.
     and_then (cmd X [''sudo'', ''apt'', ''update''] w1) (\<lambda>u w2.
     cmd X ([''sudo'', ''apt'', ''install''] @ REQUIRED_TOOLS) w2))"

text \<open>Lines 87 to 90: clone asdf when its directory is not there.\<close>

definition check_asdf :: "system \<Rightarrow> world \<Rightarrow> unit result" where
  "check_asdf X w =
     and_then (py_print [''Checking for asdf''] w) (\<lambda>u w1.
     if \<not> is_dir (asdf_path X) w1
     then cmd X [''git'', ''clone'', ''https://github.com/asdf-vm/asdf.git'', asdf_path X] w1
     else (Inr (), w1))"

text \<open>
  Lines 93 to 98: the \<open>try\<close> block. The argument \<open>cmd_output(...)\<close> is evaluated before
  \<open>cmd\<close> is called with it.
\<close>

definition asdf_body :: "system \<Rightarrow> world \<Rightarrow> unit result" where
  "asdf_body X w =
     and_then (pushd (asdf_path X) w) (\<lambda>u w1.
     and_then (cmd_output X (str_split ''git describe --abbrev=0 --tags'') w1) (\<lambda>tag w2.
     cmd X [''git'', ''checkout'', tag] w2))"

definition asdf_block :: "system \<Rightarrow> world \<Rightarrow> unit result" where
  "asdf_block X = try_finally (asdf_body X) popd"

definition update_asdf :: "system \<Rightarrow> world \<Rightarrow> unit result" where
  "update_asdf X w =
     and_then (py_print [''Updating asdf''] w) (\<lambda>u w1. asdf_block X w1)"

text \<open>Lines 102 to 106.\<close>

definition ensure_files :: "system \<Rightarrow> world \<Rightarrow> unit result" where
  "ensure_files X w =
     and_then (py_print [''Making sure important files exist''] w) (\<lambda>u w1.
     and_then (cmd X [''touch'', zshrc_path X] w1) (\<lambda>u w2.
     cmd X [''mkdir'', ''-p'', ssh_dir_path X] w2))"

text \<open>Lines 108 to 113.\<close>

definition install_antigen :: "system \<Rightarrow> world \<Rightarrow> unit result" where
  "install_antigen X w =
     and_then (py_print [''Installing latest version of Antigen to '' @ antigen_path X] w) (\<lambda>u w1.
     and_then (cmd_output X
                 [''curl'', ''-sLH'', ''Cache-Control: no-cache'', ''https://git.io/antigen''] w1)
       (\<lambda>antigen_src w2.
     write_text (antigen_path X) antigen_src w2))"

text \<open>Lines 115 to 118.\<close>

definition write_config :: "system \<Rightarrow> world \<Rightarrow> unit result" where
  "write_config X w =
     and_then (py_print [''Creating/updating zsh base config at '' @ config_path X] w) (\<lambda>u w1.
     write_text (config_path X) CONFIG_CONTENTS w1)"

text \<open>Lines 120 to 128.\<close>

definition is_source_line :: "string \<Rightarrow> bool" where
  "is_source_line line = (str_rstrip line = zshrc_line)"

definition found_line :: "string \<Rightarrow> bool" where
  "found_line text = list_ex is_source_line (file_lines text)"

definition link_config :: "system \<Rightarrow> world \<Rightarrow> unit result" where
  "link_config X w =
     and_then (py_print [''Making sure .zshrc reads from base config''] w) (\<lambda>u w1.
     and_then (read_text (zshrc_path X) w1) (\<lambda>text w2.
     if \<not> found_line text
     then and_then (py_print [''Adding source line to .zshrc''] w2) (\<lambda>u w3.
          append_text (zshrc_path X) ([CHR 0x0A] @ zshrc_line @ [CHR 0x0A]) w3)
     else (Inr (), w2)))"

text \<open>
  Lines 130 to 138. \<open>if zsh_path\<close> holds when \<open>which\<close> found a path that is not the
  empty string, \<open>if shell\<close> when the variable is not the empty string;
  \<open>environ['SHELL']\<close> raises \<open>KeyError\<close> when the variable is not set.
\<close>

definition change_shell :: "system \<Rightarrow> world \<Rightarrow> unit result" where
  "change_shell X w =
     (let zsh_path = which X ''zsh'' (environ w) (fs w)
      in if zsh_path \<noteq> None \<and> zsh_path \<noteq> Some []
         then and_then (py_print [''Checking default shell''] w) (\<lambda>u w1.
              case environ w1 ''SHELL'' of
                None \<Rightarrow> (Inl (KeyError ''SHELL''), w1)
              | Some shell \<Rightarrow>
                  if shell \<noteq> [] \<and> shell \<noteq> the zsh_path
                  then and_then (py_print [''Changing default shell to zsh''] w1) (\<lambda>u w2.
                       cmd X [''chsh'', ''-s'', the zsh_path] w2)
                  else (Inr (), w1))
         else (Inl (SystemExit ''Unable to change default shell!''), w))"

text \<open>
  \<open>main\<close> runs its blocks in order; \<open>before_shell\<close> is the part up to line 128.
\<close>

definition before_shell :: "system \<Rightarrow> world \<Rightarrow> unit result" where
  "before_shell X w =
     and_then (install_tools X w) (\<lambda>u w1.
     and_then (check_asdf X w1) (\<lambda>u w2.
     and_then (update_asdf X w2) (\<lambda>u w3.
     and_then (ensure_files X w3) (\<lambda>u w4.
     and_then (install_antigen X w4) (\<lambda>u w5.
     and_then (write_config X w5) (\<lambda>u w6.
     link_config X w6))))))"

definition main :: "system \<Rightarrow> world \<Rightarrow> unit result" where
  "main X w =
     and_then (before_shell X w) (\<lambda>u w7.
     and_then (change_shell X w7) (\<lambda>u w8.
     py_print [''Done! You probably have to log out and back in again. Enjoy!''] w8))"

text \<open>
  How the interpreter ends: status 0 when \<open>main\<close> returns; when \<open>SystemExit\<close> with a
  string reaches the top, the string goes to standard error and the status is 1; any other
  uncaught exception gives a traceback and status 1.
\<close>

datatype diagnostic = Message string | Traceback exc

fun exit_status :: "exc + unit \<Rightarrow> nat" where
  "exit_status (Inr u) = 0"
| "exit_status (Inl (SystemExit m)) = 1"
| "exit_status (Inl e) = 1"

fun stderr_output :: "exc + unit \<Rightarrow> diagnostic option" where
  "stderr_output (Inr u) = None"
| "stderr_output (Inl (SystemExit m)) = Some (Message m)"
| "stderr_output (Inl e) = Some (Traceback e)"

text \<open>The events that a statement added to the trace.\<close>

definition emitted :: "world \<Rightarrow> world \<Rightarrow> event list" where
  "emitted w w' = drop (length (trace w)) (trace w')"

section \<open>Reading a command line as a shell does\<close>

text \<open>
  The specification calls the logged command line shell-quoted. To state that, this is how
  a POSIX shell splits a line into words: blanks separate words; between single quotes
  every character stands for itself; between double quotes a backslash escapes \<open>$\<close>,
  the backquote, the double quote and the backslash, and an unescaped \<open>$\<close> or backquote
  starts an expansion; outside quotes a backslash escapes the next character and the
  operator characters, \<open>$\<close> and the backquote are not plain text. The result is the list
  of words, or \<open>None\<close> when the line is not a plain list of words (an open quote, an
  operator, an expansion).
\<close>

datatype quoting = Unquoted | Single | Double

definition sh_special :: string where
  "sh_special = [CHR ''|'', CHR ''&'', CHR '';'', CHR ''<'', CHR ''>'', CHR ''('', CHR '')'',
                 CHR ''$'', CHR 0x60, CHR 0x0A]"

definition word_of :: "string option \<Rightarrow> string" where
  "word_of cur = (case cur of None \<Rightarrow> [] | Some word \<Rightarrow> word)"

fun sh_scan :: "quoting \<Rightarrow> string option \<Rightarrow> string \<Rightarrow> string list option" where
  "sh_scan Unquoted cur [] = Some (case cur of None \<Rightarrow> [] | Some word \<Rightarrow> [word])"
| "sh_scan Single cur [] = None"
| "sh_scan Double cur [] = None"
| "sh_scan Unquoted cur (c # cs) =
     (if c = CHR '' '' \<or> c = CHR 0x09 then
        (case cur of
           None \<Rightarrow> sh_scan Unquoted None cs
         | Some word \<Rightarrow> map_option ((#) word) (sh_scan Unquoted None cs))
      else if c = CHR 0x27 then sh_scan Single (Some (word_of cur)) cs
      else if c = CHR 0x22 then sh_scan Double (Some (word_of cur)) cs
      else if c = CHR 0x5C then
        (case cs of
           [] \<Rightarrow> None
         | d # ds \<Rightarrow> if d = CHR 0x0A then sh_scan Unquoted cur ds
                    else sh_scan Unquoted (Some (word_of cur @ [d])) ds)
      else if c \<in> set sh_special then None
      else sh_scan Unquoted (Some (word_of cur @ [c])) cs)"
| "sh_scan Single cur (c # cs) =
     (if c = CHR 0x27 then sh_scan Unquoted cur cs
      else sh_scan Single (Some (word_of cur @ [c])) cs)"
| "sh_scan Double cur (c # cs) =
     (if c = CHR 0x22 then sh_scan Unquoted cur cs
      else if c = CHR ''$'' \<or> c = CHR 0x60 then None
      else if c = CHR 0x5C then
        (case cs of
           [] \<Rightarrow> None
         | d # ds \<Rightarrow> if d = CHR 0x0A then sh_scan Double cur ds
                    else if d = CHR ''$'' \<or> d = CHR 0x60 \<or> d = CHR 0x22 \<or> d = CHR 0x5C
                    then sh_scan Double (Some (word_of cur @ [d])) ds
                    else sh_scan Double (Some (word_of cur @ [c, d])) ds)
      else sh_scan Double (Some (word_of cur @ [c])) cs)"

definition sh_words :: "string \<Rightarrow> string list option" where
  "sh_words line = sh_scan Unquoted None line"

section \<open>Concrete systems and states\<close>

text \<open>
  A machine on which every program runs and exits with status 0, leaving the file system as
  it was: \<open>curl\<close> prints a one-line script that ends in a line feed, every other program
  prints a tag name and a line feed.
\<close>

definition spawn_ok :: "string list \<Rightarrow> path \<Rightarrow> (string \<rightharpoonup> string) \<Rightarrow> (path \<rightharpoonup> node) \<Rightarrow> proc_result" where
  "spawn_ok argv d env f =
     (if argv \<noteq> [] \<and> hd argv = ''curl'' then Exited 0 (Some ''#!/bin/zsh\<newline>'') f
      else Exited 0 (Some ''v0.14.0\<newline>'') f)"

definition sys_zsh :: system where
  "sys_zsh = \<lparr>spawn = spawn_ok, which = (\<lambda>name env f. Some ''/usr/bin/zsh''), home = ''/home/u''\<rparr>"

definition sys_no_zsh :: system where
  "sys_no_zsh = \<lparr>spawn = spawn_ok, which = (\<lambda>name env f. None), home = ''/home/u''\<rparr>"

text \<open>A machine on which every program exits with status 100 and prints nothing.\<close>

definition sys_failing :: system where
  "sys_failing =
     \<lparr>spawn = (\<lambda>argv d env f. Exited 100 (Some []) f),
      which = (\<lambda>name env f. Some ''/usr/bin/zsh''), home = ''/home/u''\<rparr>"

text \<open>
  A machine on which \<open>git checkout v0.14.0\<close> removes the directory \<open>docs\<close> of the
  work tree, which that tag does not have.
\<close>

definition sys_checkout_removes :: system where
  "sys_checkout_removes =
     \<lparr>spawn = (\<lambda>argv d env f.
        if argv = [''git'', ''checkout'', ''v0.14.0'']
        then Exited 0 (Some []) (f(''/home/u/.asdf/docs'' := None))
        else Exited 0 (Some ''v0.14.0\<newline>'') f),
      which = (\<lambda>name env f. Some ''/usr/bin/zsh''), home = ''/home/u''\<rparr>"

text \<open>
  A process started in \<open>/work\<close>, with the asdf checkout in place, a \<open>.zshrc\<close> whose only
  line has no line feed, and \<open>bash\<close> as the login shell.
\<close>

definition w_start :: world where
  "w_start =
     \<lparr>cwd = ''/work'', stack = [],
      fs = [''/work'' \<mapsto> Dir, ''/home/u'' \<mapsto> Dir, ''/home/u/.asdf'' \<mapsto> Dir,
            ''/home/u/.zshrc'' \<mapsto> File ''export EDITOR=vim''],
      environ = [''SHELL'' \<mapsto> ''/bin/bash''], trace = []\<rparr>"

text \<open>The same process started inside the directory \<open>docs\<close> of the asdf checkout.\<close>

definition w_docs :: world where
  "w_docs =
     \<lparr>cwd = ''/home/u/.asdf/docs'', stack = [],
      fs = [''/home/u'' \<mapsto> Dir, ''/home/u/.asdf'' \<mapsto> Dir, ''/home/u/.asdf/docs'' \<mapsto> Dir,
            ''/home/u/.zshrc'' \<mapsto> File ''export EDITOR=vim''],
      environ = [''SHELL'' \<mapsto> ''/bin/bash''], trace = []\<rparr>"

text \<open>The process of \<open>w_start\<close> with a given text in \<open>.zshrc\<close>.\<close>

definition w_zshrc :: "string \<Rightarrow> world" where
  "w_zshrc text = w_start\<lparr>fs := (fs w_start)(''/home/u/.zshrc'' \<mapsto> File text)\<rparr>"

text \<open>The process of \<open>w_start\<close> with a given value, or none, for the variable \<open>SHELL\<close>.\<close>

definition w_shell :: "string option \<Rightarrow> world" where
  "w_shell v = w_start\<lparr>environ := (Map.empty(''SHELL'' := v))\<rparr>"

text \<open>The process of \<open>w_start\<close> with an earlier base config in place.\<close>

definition w_old_config :: world where
  "w_old_config = w_start\<lparr>fs := (fs w_start)(''/home/u/.zshrc-base.zsh'' \<mapsto> File ''# old'')\<rparr>"

section \<open>Properties of statements\<close>

text \<open>
  \<open>behaves Q E f\<close>: whatever the state, \<open>f\<close> only adds events to the trace, every event it
  adds satisfies \<open>Q\<close>, and every exception it raises satisfies \<open>E\<close>.
\<close>

definition behaves :: "(event \<Rightarrow> bool) \<Rightarrow> (exc \<Rightarrow> bool) \<Rightarrow> (world \<Rightarrow> 'a result) \<Rightarrow> bool" where
  "behaves Q E f =
     (\<forall>w. (\<exists>evs. trace (snd (f w)) = trace w @ evs \<and> list_all Q evs)
          \<and> (\<forall>e. fst (f w) = Inl e \<longrightarrow> E e))"

definition not_exit :: "exc \<Rightarrow> bool" where
  "not_exit e = (case e of SystemExit m \<Rightarrow> False | _ \<Rightarrow> True)"

definition not_chsh :: "event \<Rightarrow> bool" where
  "not_chsh e = (case e of Print s \<Rightarrow> True | Spawn argv \<Rightarrow> argv = [] \<or> hd argv \<noteq> ''chsh'')"

text \<open>
  The characters that a shell takes as plain text outside quotes and that \<open>repr\<close> leaves
  as they are: printable ASCII except the blank, the quotes, the backslash and the
  characters of \<open>sh_special\<close>.
\<close>

definition plain :: "char \<Rightarrow> bool" where
  "plain c = ((33::nat) \<le> of_char c \<and> (of_char c :: nat) \<le> 126
              \<and> c \<noteq> CHR 0x27 \<and> c \<noteq> CHR 0x22 \<and> c \<noteq> CHR 0x5C \<and> c \<notin> set sh_special)"

section \<open>Sequencing, and what each call leaves unchanged\<close>

lemma and_then_Inl [simp]: "and_then (Inl e, w) f = (Inl e, w)"
  by (simp add: and_then_def)

lemma and_then_Inr [simp]: "and_then (Inr x, w) f = f x w"
  by (simp add: and_then_def)

lemma describe_argv:
  "str_split ''git describe --abbrev=0 --tags'' = [''git'', ''describe'', ''--abbrev=0'', ''--tags'']"
  by (simp add: str_split_def isspace_def)

lemma cmd_frame:
  assumes "cmd X parts w = (r, w')"
  shows "cwd w' = cwd w" and "stack w' = stack w" and "environ w' = environ w"
  using assms
  by (auto simp: cmd_def py_print_def and_then_def subprocess_run_def Let_def
      split: proc_result.splits)

lemma cmd_output_frame:
  assumes "cmd_output X parts w = (r, w')"
  shows "cwd w' = cwd w" and "stack w' = stack w" and "environ w' = environ w"
  using assms
  by (auto simp: cmd_output_def py_print_def and_then_def subprocess_run_def Let_def
      split: proc_result.splits if_splits option.splits)

lemma chdir_frame:
  assumes "chdir d w = (r, w')"
  shows "stack w' = stack w" and "fs w' = fs w" and "environ w' = environ w"
    and "trace w' = trace w"
  using assms by (auto simp: chdir_def split: option.splits node.splits)

lemma chdir_cwd:
  "chdir d w = (r, w') \<Longrightarrow> cwd w' = (if fs w d = Some Dir then d else cwd w)"
  by (auto simp: chdir_def split: option.splits node.splits)

lemma pushd_cases:
  assumes "pushd d w = (r, w')"
  shows "(fs w (cwd w) \<noteq> Some Dir \<and> w' = w \<and> r = Inl (OSError FileNotFoundError))
       \<or> (fs w (cwd w) = Some Dir \<and> stack w' = stack w @ [cwd w] \<and> fs w' = fs w)"
  using assms
  by (auto simp: pushd_def getcwd_def chdir_def split: if_splits option.splits node.splits)

lemma popd_fs: "popd w = (r, w') \<Longrightarrow> fs w' = fs w"
  by (auto simp: popd_def chdir_def split: if_splits option.splits node.splits)

text \<open>
  The body of the \<open>try\<close> block either fails in \<open>getcwd\<close> and changes nothing, or leaves
  \<open>_stack\<close> with the starting directory pushed, wherever it stops.
\<close>

lemma asdf_body_cases:
  assumes "asdf_body X w = (r, w')"
  shows "(fs w (cwd w) \<noteq> Some Dir \<and> w' = w) \<or> stack w' = stack w @ [cwd w]"
proof -
  obtain r0 w0 where p: "pushd (asdf_path X) w = (r0, w0)"
    by (cases "pushd (asdf_path X) w")
  from pushd_cases[OF p] show ?thesis
  proof
    assume "fs w (cwd w) \<noteq> Some Dir \<and> w0 = w \<and> r0 = Inl (OSError FileNotFoundError)"
    with assms p show ?thesis by (simp add: asdf_body_def)
  next
    assume a: "fs w (cwd w) = Some Dir \<and> stack w0 = stack w @ [cwd w] \<and> fs w0 = fs w"
    show ?thesis
    proof (cases r0)
      case (Inl e)
      with assms p a show ?thesis by (simp add: asdf_body_def)
    next
      case (Inr u)
      obtain r1 w1 where
        c: "cmd_output X (str_split ''git describe --abbrev=0 --tags'') w0 = (r1, w1)"
        by (cases "cmd_output X (str_split ''git describe --abbrev=0 --tags'') w0")
      show ?thesis
      proof (cases r1)
        case (Inl e)
        with assms p a Inr c cmd_output_frame(2)[OF c] show ?thesis
          by (simp add: asdf_body_def)
      next
        case (Inr tag)
        with assms p \<open>r0 = Inr u\<close> c have d: "cmd X [''git'', ''checkout'', tag] w1 = (r, w')"
          by (simp add: asdf_body_def)
        from cmd_frame(2)[OF d] cmd_output_frame(2)[OF c] a show ?thesis by simp
      qed
    qed
  qed
qed

section \<open>The working directory around the asdf block\<close>

text \<open>
  C1 says that the working directory after the \<open>try\<close> block of lines 93 to 98 always
  equals the one before it. \<open>popd\<close> always runs, but it restores the directory with
  \<open>chdir\<close>, which raises when the directory is gone. On a machine where
  \<open>git checkout v0.14.0\<close> removes the directory \<open>docs\<close> of the checkout, a script
  started in that directory ends the block with \<open>FileNotFoundError\<close> and stays in
  \<open>/home/u/.asdf\<close>.
\<close>

theorem asdf_block_cwd_counterexample:
  "fst (asdf_block sys_checkout_removes w_docs) = Inl (OSError FileNotFoundError)
   \<and> cwd (snd (asdf_block sys_checkout_removes w_docs)) = ''/home/u/.asdf''
   \<and> cwd (snd (asdf_block sys_checkout_removes w_docs)) \<noteq> cwd w_docs"
  by (simp add: asdf_block_def try_finally_def asdf_body_def pushd_def popd_def getcwd_def
      chdir_def cmd_output_def cmd_def subprocess_run_def py_print_def describe_argv
      asdf_path_def path_join_def sys_checkout_removes_def w_docs_def Let_def
      str_strip_def str_lstrip_def str_rstrip_def isspace_def)

text \<open>
  C1, amended: for every system and every state, if the directory the block started in is
  still a directory when the block ends, then the working directory and \<open>_stack\<close> after
  the block equal those before it, whether the block returns or raises (in \<open>pushd\<close>, in
  the tag query or in the checkout).
\<close>

theorem asdf_block_restores_cwd:
  assumes run: "asdf_block X w = (r, w')"
    and still: "fs w' (cwd w) = Some Dir"
  shows "cwd w' = cwd w \<and> stack w' = stack w"
proof -
  obtain rb wb where b: "asdf_body X w = (rb, wb)" by (cases "asdf_body X w")
  obtain rp wp where p: "popd wb = (rp, wp)" by (cases "popd wb")
  have w': "w' = wp" using run b p
    by (auto simp: asdf_block_def try_finally_def split: sum.splits)
  from asdf_body_cases[OF b] show ?thesis
  proof
    assume "fs w (cwd w) \<noteq> Some Dir \<and> wb = w"
    with popd_fs[OF p] still w' show ?thesis by simp
  next
    assume s: "stack wb = stack w @ [cwd w]"
    then have "popd wb = chdir (cwd w) (wb\<lparr>stack := stack w\<rparr>)"
      by (simp add: popd_def)
    with p have c: "chdir (cwd w) (wb\<lparr>stack := stack w\<rparr>) = (rp, wp)" by simp
    from chdir_frame(1,2)[OF c] chdir_cwd[OF c] still w' show ?thesis by simp
  qed
qed

text \<open>
  A run in which the tag query raises: every program exits with status 100, so
  \<open>cmd_output\<close> raises \<open>CalledProcessError\<close>, and the process is back in \<open>/work\<close>.
\<close>

theorem asdf_block_restores_cwd_witness:
  "fst (asdf_block sys_failing w_start) = Inl (CalledProcessError 100)
   \<and> fs (snd (asdf_block sys_failing w_start)) (cwd w_start) = Some Dir
   \<and> cwd (snd (asdf_block sys_failing w_start)) = ''/work''
   \<and> stack (snd (asdf_block sys_failing w_start)) = []"
proof -
  have r: "asdf_block sys_failing w_start
           = (fst (asdf_block sys_failing w_start), snd (asdf_block sys_failing w_start))"
    by simp
  have e: "fst (asdf_block sys_failing w_start) = Inl (CalledProcessError 100)"
    by (simp add: asdf_block_def try_finally_def asdf_body_def pushd_def popd_def getcwd_def
        chdir_def cmd_output_def subprocess_run_def py_print_def describe_argv
        asdf_path_def path_join_def sys_failing_def w_start_def Let_def)
  have d: "fs (snd (asdf_block sys_failing w_start)) (cwd w_start) = Some Dir"
    by (simp add: asdf_block_def try_finally_def asdf_body_def pushd_def popd_def getcwd_def
        chdir_def cmd_output_def subprocess_run_def py_print_def describe_argv
        asdf_path_def path_join_def sys_failing_def w_start_def Let_def)
  have s: "cwd w_start = ''/work''" "stack w_start = []"
    by (simp_all add: w_start_def)
  from asdf_block_restores_cwd [OF r d] e d s show ?thesis by simp
qed

section \<open>Lines of a text\<close>

lemma zshrc_line_eq: "zshrc_line = ''source ~/.zshrc-base.zsh''"
  by (simp add: zshrc_line_def CONFIG_FILENAME_def)

lemma isspace_LF: "isspace (CHR 0x0A)"
  by (simp add: isspace_def)

lemma rstrip_LF: "str_rstrip (l @ [CHR 0x0A]) = str_rstrip l"
  by (simp add: str_rstrip_def isspace_LF)

lemma rstrip_only_LF: "str_rstrip [CHR 0x0A] = []"
  by (simp add: str_rstrip_def isspace_LF)

lemma rstrip_zshrc_line: "str_rstrip zshrc_line = zshrc_line"
  by (simp add: zshrc_line_eq str_rstrip_def isspace_def)

lemma zshrc_line_plain: "CHR 0x0A \<notin> set zshrc_line" "CHR 0x0D \<notin> set zshrc_line" "zshrc_line \<noteq> []"
  by (simp_all add: zshrc_line_eq)

lemma lines_from_append_LF:
  "lines_from cur (s @ CHR 0x0A # t) = lines_from cur (s @ [CHR 0x0A]) @ lines_from [] t"
  by (induction s arbitrary: cur) simp_all

lemma lines_from_one_line:
  "CHR 0x0A \<notin> set d \<Longrightarrow> lines_from cur (d @ [CHR 0x0A]) = [cur @ d @ [CHR 0x0A]]"
  by (induction d arbitrary: cur) auto

lemma lines_from_terminated:
  "s = [] \<or> last s = CHR 0x0A \<Longrightarrow> lines_from [] (s @ [CHR 0x0A]) = lines_from [] s @ [[CHR 0x0A]]"
proof (cases "s = []")
  case True
  then show ?thesis by simp
next
  case False
  assume "s = [] \<or> last s = CHR 0x0A"
  with False obtain u where u: "s = u @ [CHR 0x0A]"
    by (metis append_butlast_last_id)
  have "lines_from [] ((u @ [CHR 0x0A]) @ [CHR 0x0A]) = lines_from [] (u @ CHR 0x0A # [CHR 0x0A])"
    by simp
  also have "\<dots> = lines_from [] (u @ [CHR 0x0A]) @ lines_from [] [CHR 0x0A]"
    by (rule lines_from_append_LF)
  finally show ?thesis using u by simp
qed

lemma count_is_source_line_LF:
  "length (filter is_source_line (lines_from cur (s @ [CHR 0x0A]))) = length (filter is_source_line (lines_from cur s))"
proof (induction s arbitrary: cur)
  case Nil
  show ?case
  proof (cases "cur = []")
    case True
    have "\<not> is_source_line [CHR 0x0A]"
      using zshrc_line_plain(3) by (auto simp: is_source_line_def rstrip_only_LF)
    with True show ?thesis by simp
  next
    case False
    have "is_source_line (cur @ [CHR 0x0A]) = is_source_line cur"
      by (simp add: is_source_line_def rstrip_LF)
    with False show ?thesis by simp
  qed
next
  case (Cons c s)
  then show ?case by simp
qed

lemma universal_newlines_plain: "CHR 0x0D \<notin> set t \<Longrightarrow> universal_newlines t = t"
  by (induction t) auto

lemma universal_newlines_append_LF:
  "CHR 0x0D \<notin> set t \<Longrightarrow>
   universal_newlines (s @ CHR 0x0A # t) =
     (if s \<noteq> [] \<and> last s = CHR 0x0D then universal_newlines s @ t
      else universal_newlines s @ CHR 0x0A # t)"
proof (induction s rule: universal_newlines.induct)
  case 1
  then show ?case by (simp add: universal_newlines_plain)
next
  case (2 c cs)
  then show ?case
    by (cases cs) (auto simp: universal_newlines_plain)
qed

lemma universal_newlines_last:
  "s \<noteq> [] \<Longrightarrow> last s = CHR 0x0D \<or> last s = CHR 0x0A \<Longrightarrow>
   universal_newlines s \<noteq> [] \<and> last (universal_newlines s) = CHR 0x0A"
proof (induction s rule: universal_newlines.induct)
  case 1
  then show ?case by simp
next
  case (2 c cs)
  show ?case
  proof (cases cs)
    case Nil
    with 2 show ?thesis by auto
  next
    case (Cons d ds)
    show ?thesis
    proof (cases "c = CHR 0x0D")
      case True
      show ?thesis
      proof (cases "d = CHR 0x0A")
        case dLF: True
        show ?thesis
        proof (cases "ds = []")
          case True
          with Cons dLF \<open>c = CHR 0x0D\<close> show ?thesis by simp
        next
          case False
          with "2.prems" Cons have "last ds = CHR 0x0D \<or> last ds = CHR 0x0A" by simp
          with "2.IH"(1)[OF True Cons dLF False] have "universal_newlines ds \<noteq> [] \<and> last (universal_newlines ds) = CHR 0x0A" .
          with Cons dLF True show ?thesis by simp
        qed
      next
        case dN: False
        from "2.prems" Cons have "last cs = CHR 0x0D \<or> last cs = CHR 0x0A" by simp
        with "2.IH"(2)[OF True Cons dN] Cons have "universal_newlines cs \<noteq> [] \<and> last (universal_newlines cs) = CHR 0x0A" by simp
        with Cons dN True show ?thesis by simp
      qed
    next
      case False
      from "2.prems" Cons have "last cs = CHR 0x0D \<or> last cs = CHR 0x0A" by simp
      with "2.IH"(3)[OF False] Cons have "universal_newlines cs \<noteq> [] \<and> last (universal_newlines cs) = CHR 0x0A" by simp
      with False show ?thesis by simp
    qed
  qed
qed


lemma universal_newlines_appended:
  "universal_newlines (old @ CHR 0x0A # zshrc_line @ [CHR 0x0A]) =
     (if old \<noteq> [] \<and> last old = CHR 0x0D then universal_newlines old @ zshrc_line @ [CHR 0x0A]
      else universal_newlines old @ CHR 0x0A # zshrc_line @ [CHR 0x0A])"
proof -
  have "CHR 0x0D \<notin> set (zshrc_line @ [CHR 0x0A])"
    using zshrc_line_plain(2) by simp
  then show ?thesis by (rule universal_newlines_append_LF)
qed

lemma lines_from_source_line: "lines_from [] (zshrc_line @ [CHR 0x0A]) = [zshrc_line @ [CHR 0x0A]]"
  using lines_from_one_line[OF zshrc_line_plain(1), of "[]"] by (simp only: append_Nil)

lemma file_lines_appended_CR:
  assumes "old \<noteq> []" and "last old = CHR 0x0D"
  shows "file_lines (old @ CHR 0x0A # zshrc_line @ [CHR 0x0A]) = file_lines old @ [zshrc_line @ [CHR 0x0A]]"
proof -
  from assms have "universal_newlines old \<noteq> [] \<and> last (universal_newlines old) = CHR 0x0A"
    using universal_newlines_last[of old] by blast
  then obtain u where u: "universal_newlines old = u @ [CHR 0x0A]"
    by (metis append_butlast_last_id)
  have "universal_newlines (old @ CHR 0x0A # zshrc_line @ [CHR 0x0A])
        = u @ CHR 0x0A # zshrc_line @ [CHR 0x0A]"
    by (simp only: universal_newlines_appended assms u if_True simp_thms append_assoc append_Cons append_Nil)
  then have "file_lines (old @ CHR 0x0A # zshrc_line @ [CHR 0x0A])
        = lines_from [] (u @ [CHR 0x0A]) @ lines_from [] (zshrc_line @ [CHR 0x0A])"
    using lines_from_append_LF[of "[]" u "zshrc_line @ [CHR 0x0A]"]
    by (simp only: file_lines_def)
  then show ?thesis
    by (simp only: file_lines_def u lines_from_source_line)
qed

lemma file_lines_appended_other:
  assumes "\<not> (old \<noteq> [] \<and> last old = CHR 0x0D)"
  shows "file_lines (old @ CHR 0x0A # zshrc_line @ [CHR 0x0A])
         = lines_from [] (universal_newlines old @ [CHR 0x0A]) @ [zshrc_line @ [CHR 0x0A]]"
proof -
  have "universal_newlines (old @ CHR 0x0A # zshrc_line @ [CHR 0x0A])
        = universal_newlines old @ CHR 0x0A # zshrc_line @ [CHR 0x0A]"
    by (simp only: universal_newlines_appended assms if_False)
  then have "file_lines (old @ CHR 0x0A # zshrc_line @ [CHR 0x0A])
        = lines_from [] (universal_newlines old @ [CHR 0x0A]) @ lines_from [] (zshrc_line @ [CHR 0x0A])"
    using lines_from_append_LF[of "[]" "universal_newlines old" "zshrc_line @ [CHR 0x0A]"]
    by (simp only: file_lines_def)
  then show ?thesis
    by (simp only: lines_from_source_line)
qed


lemma is_source_line_appended: "is_source_line (zshrc_line @ [CHR 0x0A])"
  by (simp add: is_source_line_def rstrip_LF rstrip_zshrc_line)

lemma one_source_line_appended:
  assumes "\<not> found_line old"
  shows "length (filter is_source_line (file_lines (old @ CHR 0x0A # zshrc_line @ [CHR 0x0A]))) = 1"
proof -
  from assms have none: "filter is_source_line (file_lines old) = []"
    by (simp add: found_line_def list_ex_iff filter_empty_conv)
  show ?thesis
  proof (cases "old \<noteq> [] \<and> last old = CHR 0x0D")
    case True
    then have "file_lines (old @ CHR 0x0A # zshrc_line @ [CHR 0x0A])
               = file_lines old @ [zshrc_line @ [CHR 0x0A]]"
      using file_lines_appended_CR[of old] by blast
    with none is_source_line_appended show ?thesis by simp
  next
    case False
    have "length (filter is_source_line (lines_from [] (universal_newlines old @ [CHR 0x0A])))
          = length (filter is_source_line (file_lines old))"
      unfolding file_lines_def by (rule count_is_source_line_LF)
    with none have "filter is_source_line (lines_from [] (universal_newlines old @ [CHR 0x0A])) = []"
      by simp
    with file_lines_appended_other[OF False] is_source_line_appended show ?thesis by simp
  qed
qed

lemma blank_line_appended:
  assumes "old = [] \<or> last old = CHR 0x0A"
  shows "file_lines (old @ CHR 0x0A # zshrc_line @ [CHR 0x0A])
         = file_lines old @ [[CHR 0x0A], zshrc_line @ [CHR 0x0A]]"
proof -
  have "universal_newlines old = [] \<or> last (universal_newlines old) = CHR 0x0A"
  proof (cases "old = []")
    case True
    then show ?thesis by simp
  next
    case False
    with assms have "last old = CHR 0x0A" by simp
    with False universal_newlines_last[of old] show ?thesis by simp
  qed
  then have "lines_from [] (universal_newlines old @ [CHR 0x0A]) = file_lines old @ [[CHR 0x0A]]"
    unfolding file_lines_def by (rule lines_from_terminated)
  moreover from assms have "\<not> (old \<noteq> [] \<and> last old = CHR 0x0D)" by auto
  ultimately show ?thesis using file_lines_appended_other[of old] by simp
qed

lemma link_config_absent:
  assumes "fs w (zshrc_path X) = Some (File old)" and "\<not> found_line old"
  shows "link_config X w =
     (Inr (), w\<lparr>trace := trace w @ [Print ''Making sure .zshrc reads from base config'',
                                     Print ''Adding source line to .zshrc''],
               fs := (fs w)(zshrc_path X \<mapsto> File (old @ CHR 0x0A # zshrc_line @ [CHR 0x0A]))\<rparr>)"
  using assms by (simp add: link_config_def py_print_def read_text_def append_text_def)

lemma link_config_present:
  assumes "fs w (zshrc_path X) = Some (File old)" and "found_line old"
  shows "link_config X w =
     (Inr (), w\<lparr>trace := trace w @ [Print ''Making sure .zshrc reads from base config'']\<rparr>)"
  using assms by (simp add: link_config_def py_print_def read_text_def append_text_def)

lemma found_line_iff:
  "found_line text \<longleftrightarrow> (\<exists>line \<in> set (file_lines text). str_rstrip line = ''source ~/.zshrc-base.zsh'')"
  by (simp add: found_line_def list_ex_iff is_source_line_def zshrc_line_eq)

lemma source_line_literal:
  "''\<newline>source ~/.zshrc-base.zsh\<newline>'' = CHR 0x0A # zshrc_line @ [CHR 0x0A]"
  "''source ~/.zshrc-base.zsh\<newline>'' = zshrc_line @ [CHR 0x0A]"
  "(\<lambda>line. str_rstrip line = ''source ~/.zshrc-base.zsh'') = is_source_line"
  by (simp_all add: zshrc_line_eq is_source_line_def fun_eq_iff)

section \<open>The source line in .zshrc\<close>

text \<open>
  C3 says that when no line of \<open>.zshrc\<close> is the source line, the line is appended once,
  preceded by exactly one blank line, with the existing content untouched. The script
  appends a line feed, the line and a line feed. After a text whose last line has no line
  feed, the first line feed ends that line and no blank line appears: a file holding
  \<open>export EDITOR=vim\<close> without a line feed ends up with two lines, and its lines are not
  the old lines followed by a blank line and the source line.
\<close>

theorem link_config_blank_line_counterexample:
  "fs w_start (zshrc_path sys_zsh) = Some (File ''export EDITOR=vim'')
   \<and> \<not> found_line ''export EDITOR=vim''
   \<and> fs (snd (link_config sys_zsh w_start)) (zshrc_path sys_zsh)
       = Some (File ''export EDITOR=vim\<newline>source ~/.zshrc-base.zsh\<newline>'')
   \<and> file_lines ''export EDITOR=vim\<newline>source ~/.zshrc-base.zsh\<newline>''
       = [''export EDITOR=vim\<newline>'', ''source ~/.zshrc-base.zsh\<newline>'']
   \<and> file_lines ''export EDITOR=vim\<newline>source ~/.zshrc-base.zsh\<newline>''
       \<noteq> file_lines ''export EDITOR=vim'' @ [''\<newline>'', ''source ~/.zshrc-base.zsh\<newline>'']"
proof -
  have f: "fs w_start (zshrc_path sys_zsh) = Some (File ''export EDITOR=vim'')"
    by (simp add: w_start_def zshrc_path_def path_join_def sys_zsh_def)
  have old: "file_lines ''export EDITOR=vim'' = [''export EDITOR=vim'']"
    by (simp add: file_lines_def)
  have n: "\<not> found_line ''export EDITOR=vim''"
    by (simp add: found_line_def old is_source_line_def zshrc_line_eq str_rstrip_def isspace_def)
  have new: "file_lines ''export EDITOR=vim\<newline>source ~/.zshrc-base.zsh\<newline>''
       = [''export EDITOR=vim\<newline>'', ''source ~/.zshrc-base.zsh\<newline>'']"
    by (simp add: file_lines_def)
  have w: "fs (snd (link_config sys_zsh w_start)) (zshrc_path sys_zsh)
       = Some (File ''export EDITOR=vim\<newline>source ~/.zshrc-base.zsh\<newline>'')"
    by (simp add: link_config_absent[OF f n] zshrc_line_eq)
  from f n w new old show ?thesis by simp
qed

text \<open>
  C3, amended: when \<open>.zshrc\<close> is a file of which no line, with trailing whitespace
  removed, equals \<open>source ~/.zshrc-base.zsh\<close>, the block returns and the file holds the
  old text followed by a line feed, that line and a line feed, so the old content is
  neither changed nor reordered; exactly one line of the new text is the source line; and
  when the old text is empty or ends in a line feed, the new lines are the old lines, one
  blank line and the source line.
\<close>

theorem link_config_appends_source_line:
  assumes "fs w (zshrc_path X) = Some (File old)"
    and "\<forall>line \<in> set (file_lines old). str_rstrip line \<noteq> ''source ~/.zshrc-base.zsh''"
  shows "fst (link_config X w) = Inr ()
     \<and> fs (snd (link_config X w)) =
         (fs w)(zshrc_path X \<mapsto> File (old @ ''\<newline>source ~/.zshrc-base.zsh\<newline>''))
     \<and> length (filter (\<lambda>line. str_rstrip line = ''source ~/.zshrc-base.zsh'')
                 (file_lines (old @ ''\<newline>source ~/.zshrc-base.zsh\<newline>''))) = 1
     \<and> (old = [] \<or> last old = CHR 0x0A \<longrightarrow>
          file_lines (old @ ''\<newline>source ~/.zshrc-base.zsh\<newline>'')
          = file_lines old @ [''\<newline>'', ''source ~/.zshrc-base.zsh\<newline>''])"
proof -
  from assms(2) have nf: "\<not> found_line old" by (simp add: found_line_iff)
  have a: "fst (link_config X w) = Inr ()"
    and b: "fs (snd (link_config X w)) =
         (fs w)(zshrc_path X \<mapsto> File (old @ CHR 0x0A # zshrc_line @ [CHR 0x0A]))"
    by (simp_all add: link_config_absent[OF assms(1) nf])
  show ?thesis
    unfolding source_line_literal
    using a b one_source_line_appended[OF nf] blank_line_appended[of old]
    by blast
qed

text \<open>
  A \<open>.zshrc\<close> of one line that ends in a line feed: the blank line and the source line
  follow it.
\<close>

theorem link_config_appends_source_line_witness:
  "fs (w_zshrc ''export EDITOR=vim\<newline>'') (zshrc_path sys_zsh) = Some (File ''export EDITOR=vim\<newline>'')
   \<and> list_all (\<lambda>line. str_rstrip line \<noteq> ''source ~/.zshrc-base.zsh'') (file_lines ''export EDITOR=vim\<newline>'')
   \<and> fst (link_config sys_zsh (w_zshrc ''export EDITOR=vim\<newline>'')) = Inr ()
   \<and> fs (snd (link_config sys_zsh (w_zshrc ''export EDITOR=vim\<newline>''))) (zshrc_path sys_zsh)
       = Some (File ''export EDITOR=vim\<newline>\<newline>source ~/.zshrc-base.zsh\<newline>'')
   \<and> file_lines ''export EDITOR=vim\<newline>\<newline>source ~/.zshrc-base.zsh\<newline>''
       = [''export EDITOR=vim\<newline>'', ''\<newline>'', ''source ~/.zshrc-base.zsh\<newline>'']"
proof -
  have f: "fs (w_zshrc ''export EDITOR=vim\<newline>'') (zshrc_path sys_zsh) = Some (File ''export EDITOR=vim\<newline>'')"
    by (simp add: w_zshrc_def w_start_def zshrc_path_def path_join_def sys_zsh_def)
  have old: "file_lines ''export EDITOR=vim\<newline>'' = [''export EDITOR=vim\<newline>'']"
    by (simp add: file_lines_def)
  have n: "\<forall>line \<in> set (file_lines ''export EDITOR=vim\<newline>''). str_rstrip line \<noteq> ''source ~/.zshrc-base.zsh''"
    by (simp add: old str_rstrip_def isspace_def)
  from link_config_appends_source_line [OF f n] f n old show ?thesis
    by (simp add: list_all_iff)
qed

text \<open>
  C4: when some line of \<open>.zshrc\<close>, with trailing whitespace removed, equals
  \<open>source ~/.zshrc-base.zsh\<close>, the block returns, leaves the whole file system as it
  was (so the file, its content and its line count), and only prints its first message.
\<close>

theorem link_config_keeps_file:
  assumes "fs w (zshrc_path X) = Some (File text)"
    and "\<exists>line \<in> set (file_lines text). str_rstrip line = ''source ~/.zshrc-base.zsh''"
  shows "fst (link_config X w) = Inr ()
     \<and> fs (snd (link_config X w)) = fs w
     \<and> emitted w (snd (link_config X w)) = [Print ''Making sure .zshrc reads from base config'']"
proof -
  from assms(2) have "found_line text" by (simp add: found_line_iff)
  from link_config_present[OF assms(1) this] show ?thesis
    by (simp add: emitted_def)
qed

text \<open>A \<open>.zshrc\<close> whose second line is the source line followed by two blanks.\<close>

theorem link_config_keeps_file_witness:
  "fs (w_zshrc ''export EDITOR=vim\<newline>source ~/.zshrc-base.zsh  \<newline>'') (zshrc_path sys_zsh)
     = Some (File ''export EDITOR=vim\<newline>source ~/.zshrc-base.zsh  \<newline>'')
   \<and> list_ex (\<lambda>line. str_rstrip line = ''source ~/.zshrc-base.zsh'')
        (file_lines ''export EDITOR=vim\<newline>source ~/.zshrc-base.zsh  \<newline>'')
   \<and> fst (link_config sys_zsh (w_zshrc ''export EDITOR=vim\<newline>source ~/.zshrc-base.zsh  \<newline>'')) = Inr ()
   \<and> fs (snd (link_config sys_zsh (w_zshrc ''export EDITOR=vim\<newline>source ~/.zshrc-base.zsh  \<newline>'')))
       = fs (w_zshrc ''export EDITOR=vim\<newline>source ~/.zshrc-base.zsh  \<newline>'')"
proof -
  let ?t = "''export EDITOR=vim\<newline>source ~/.zshrc-base.zsh  \<newline>''"
  have f: "fs (w_zshrc ?t) (zshrc_path sys_zsh) = Some (File ?t)"
    by (simp add: w_zshrc_def w_start_def zshrc_path_def path_join_def sys_zsh_def)
  have ls: "file_lines ?t = [''export EDITOR=vim\<newline>'', ''source ~/.zshrc-base.zsh  \<newline>'']"
    by (simp add: file_lines_def)
  have n: "\<exists>line \<in> set (file_lines ?t). str_rstrip line = ''source ~/.zshrc-base.zsh''"
    by (simp add: ls str_rstrip_def isspace_def)
  from link_config_keeps_file [OF f n] f n show ?thesis
    by (simp add: list_ex_iff)
qed

section \<open>The files that the script writes\<close>

lemma write_text_file:
  "fs w p \<noteq> Some Dir \<Longrightarrow> write_text p s w = (Inr (), w\<lparr>fs := (fs w)(p \<mapsto> File s)\<rparr>)"
  by (auto simp: write_text_def split: option.splits node.splits)

lemma spawn_curl_sys_zsh:
  "spawn sys_zsh [''curl'', ''-sLH'', ''Cache-Control: no-cache'', ''https://git.io/antigen'']
     (cwd w_start) (environ w_start) (fs w_start) = Exited 0 (Some ''#!/bin/zsh\<newline>'') (fs w_start)"
  by (simp add: sys_zsh_def spawn_ok_def)

lemma strip_script: "str_strip ''#!/bin/zsh\<newline>'' = ''#!/bin/zsh''"
  by (simp add: str_strip_def str_lstrip_def str_rstrip_def isspace_def)

lemma CONFIG_CONTENTS_text:
  "CONFIG_CONTENTS = ''\<newline># Andy's base zsh config\<newline>\<newline># Run the following command to install or update this config:\<newline># python3 <(curl -sLH 'Cache-Control: no-cache' https://raw.githubusercontent.com/AndyBarron/shell/main/setup.py)\<newline>\<newline># init antigen\<newline>source ~/.antigen.zsh\<newline>\<newline># init oh-my-zsh\<newline>antigen use oh-my-zsh\<newline>\<newline># default oh-my-zsh plugins\<newline>antigen bundle git\<newline>antigen bundle asdf\<newline>antigen bundle kubectl\<newline>\<newline># third-party oh-my-zsh plugins\<newline>antigen bundle zsh-users/zsh-autosuggestions\<newline>ZSH_AUTOSUGGEST_STRATEGY=(completion history)\<newline>ZSH_AUTOSUGGEST_USE_ASYNC=true\<newline>\<newline>antigen bundle zsh-users/zsh-completions\<newline>antigen bundle zsh-users/zsh-syntax-highlighting # must be last\<newline>\<newline># specify theme\<newline>antigen theme romkatv/powerlevel10k\<newline>\<newline># apply config\<newline>antigen apply\<newline>\<newline># my settings :)\<newline>export VISUAL=nvim\<newline>''"
  by (simp add: CONFIG_CONTENTS_def)

lemma config_path_sys_zsh: "config_path sys_zsh = ''/home/u/.zshrc-base.zsh''"
  by (simp add: config_path_def CONFIG_FILENAME_def path_join_def sys_zsh_def)

text \<open>
  C2 says that the body which \<open>curl\<close> returns is written verbatim to
  \<open>~/.antigen.zsh\<close>. The body reaches \<open>main\<close> through \<open>cmd_output\<close>, which strips
  it: when \<open>curl\<close> prints the script \<open>#!/bin/zsh\<close> and a line feed, the file holds the
  script without the line feed.
\<close>

theorem install_antigen_verbatim_counterexample:
  "spawn sys_zsh [''curl'', ''-sLH'', ''Cache-Control: no-cache'', ''https://git.io/antigen'']
     (cwd w_start) (environ w_start) (fs w_start) = Exited 0 (Some ''#!/bin/zsh\<newline>'') (fs w_start)
   \<and> fst (install_antigen sys_zsh w_start) = Inr ()
   \<and> fs (snd (install_antigen sys_zsh w_start)) ''/home/u/.antigen.zsh'' = Some (File ''#!/bin/zsh'')
   \<and> fs (snd (install_antigen sys_zsh w_start)) ''/home/u/.antigen.zsh'' \<noteq> Some (File ''#!/bin/zsh\<newline>'')"
  by (simp add: install_antigen_def cmd_output_def py_print_def subprocess_run_def Let_def
      write_text_def spawn_curl_sys_zsh strip_script antigen_path_def path_join_def)
     (simp add: sys_zsh_def w_start_def)

text \<open>
  C2, amended: when \<open>curl\<close> exits with status 0 and its output is valid UTF-8, the block
  returns and \<open>~/.antigen.zsh\<close> holds that output with the whitespace at its start and
  at its end removed, whatever the file held before; nothing else changes on the file
  system that \<open>curl\<close> left.
\<close>

theorem install_antigen_writes_stripped_body:
  assumes "spawn X [''curl'', ''-sLH'', ''Cache-Control: no-cache'', ''https://git.io/antigen'']
             (cwd w) (environ w) (fs w) = Exited 0 (Some body) f"
    and "f (antigen_path X) \<noteq> Some Dir"
  shows "fst (install_antigen X w) = Inr ()
     \<and> fs (snd (install_antigen X w)) = f(antigen_path X \<mapsto> File (str_strip body))"
  using assms
  by (simp add: install_antigen_def cmd_output_def py_print_def subprocess_run_def Let_def
      write_text_file)

text \<open>The same machine: the path was free, and the file holds the stripped script.\<close>

theorem install_antigen_writes_stripped_body_witness:
  "fs w_start (antigen_path sys_zsh) \<noteq> Some Dir
   \<and> fst (install_antigen sys_zsh w_start) = Inr ()
   \<and> fs (snd (install_antigen sys_zsh w_start))
       = (fs w_start)(''/home/u/.antigen.zsh'' \<mapsto> File ''#!/bin/zsh'')"
proof -
  have p: "antigen_path sys_zsh = ''/home/u/.antigen.zsh''"
    by (simp add: antigen_path_def path_join_def sys_zsh_def)
  have d: "fs w_start (antigen_path sys_zsh) \<noteq> Some Dir"
    by (simp add: p) (simp add: w_start_def)
  from install_antigen_writes_stripped_body [OF spawn_curl_sys_zsh d] d show ?thesis
    by (simp add: p strip_script)
qed

text \<open>
  C7: whether the base config file is absent or holds any text, the block returns and the
  file holds exactly \<open>CONFIG_CONTENTS\<close>; the path is \<open>.zshrc-base.zsh\<close> under the home
  directory.
\<close>

theorem write_config_overwrites:
  assumes "fs w (config_path X) = None \<or> (\<exists>old. fs w (config_path X) = Some (File old))"
  shows "fst (write_config X w) = Inr ()
     \<and> fs (snd (write_config X w)) = (fs w)(config_path X \<mapsto> File CONFIG_CONTENTS)
     \<and> config_path X = path_join (home X) ''.zshrc-base.zsh''"
proof -
  from assms have "fs w (config_path X) \<noteq> Some Dir" by auto
  then show ?thesis
    by (simp add: write_config_def py_print_def write_text_file)
       (simp add: config_path_def CONFIG_FILENAME_def)
qed

text \<open>Once with the file absent, once with an earlier text in it.\<close>

theorem write_config_overwrites_witness:
  "fs w_start ''/home/u/.zshrc-base.zsh'' = None
   \<and> fs (snd (write_config sys_zsh w_start)) ''/home/u/.zshrc-base.zsh'' = Some (File CONFIG_CONTENTS)
   \<and> fs w_old_config ''/home/u/.zshrc-base.zsh'' = Some (File ''# old'')
   \<and> fs (snd (write_config sys_zsh w_old_config)) ''/home/u/.zshrc-base.zsh'' = Some (File CONFIG_CONTENTS)"
proof -
  have a: "fs w_start ''/home/u/.zshrc-base.zsh'' = None"
    by (simp add: w_start_def)
  have b: "fs w_old_config ''/home/u/.zshrc-base.zsh'' = Some (File ''# old'')"
    by (simp add: w_old_config_def)
  have "fs (snd (write_config sys_zsh w_start))
        = (fs w_start)(config_path sys_zsh \<mapsto> File CONFIG_CONTENTS)"
    using write_config_overwrites [of w_start sys_zsh] a by (simp only: config_path_sys_zsh simp_thms)
  then have c: "fs (snd (write_config sys_zsh w_start)) ''/home/u/.zshrc-base.zsh'' = Some (File CONFIG_CONTENTS)"
    by (simp only: config_path_sys_zsh fun_upd_same)
  have "fs (snd (write_config sys_zsh w_old_config))
        = (fs w_old_config)(config_path sys_zsh \<mapsto> File CONFIG_CONTENTS)"
    using write_config_overwrites [of w_old_config sys_zsh] b by (simp only: config_path_sys_zsh) blast
  then have d: "fs (snd (write_config sys_zsh w_old_config)) ''/home/u/.zshrc-base.zsh'' = Some (File CONFIG_CONTENTS)"
    by (simp only: config_path_sys_zsh fun_upd_same)
  from a b c d show ?thesis by blast
qed

section \<open>The default shell\<close>

lemma change_shell_found:
  assumes "which X ''zsh'' (environ w) (fs w) = Some zsh_path" and "zsh_path \<noteq> []"
    and "environ w ''SHELL'' = Some shell"
  shows "emitted w (snd (change_shell X w)) =
     (if shell \<noteq> [] \<and> shell \<noteq> zsh_path
      then [Print ''Checking default shell'', Print ''Changing default shell to zsh'',
            Print (str_join '' '' (''RUN:'' # map esc [''chsh'', ''-s'', zsh_path])),
            Spawn [''chsh'', ''-s'', zsh_path]]
      else [Print ''Checking default shell''])"
  using assms
  by (auto simp: change_shell_def py_print_def cmd_def subprocess_run_def Let_def emitted_def
      split: proc_result.splits)

lemma which_sys_zsh: "which sys_zsh name env f = Some ''/usr/bin/zsh''"
  by (simp add: sys_zsh_def)

lemma main_after_before_shell:
  "before_shell X w0 = (Inr (), w) \<Longrightarrow>
   main X w0 = and_then (change_shell X w) (\<lambda>u w8.
     py_print [''Done! You probably have to log out and back in again. Enjoy!''] w8)"
  by (simp add: main_def)

lemma change_shell_not_found:
  assumes "which X ''zsh'' (environ w) (fs w) = None \<or> which X ''zsh'' (environ w) (fs w) = Some []"
  shows "change_shell X w = (Inl (SystemExit ''Unable to change default shell!''), w)"
  using assms by (auto simp: change_shell_def)

lemma change_shell_exit_only:
  assumes "fst (change_shell X w) = Inl (SystemExit m)"
  shows "m = ''Unable to change default shell!''
     \<and> (which X ''zsh'' (environ w) (fs w) = None \<or> which X ''zsh'' (environ w) (fs w) = Some [])"
  using assms
  by (auto simp: change_shell_def py_print_def cmd_def subprocess_run_def Let_def
      split: option.splits if_splits proc_result.splits)

text \<open>
  C5 says that, with the shell binary located, \<open>chsh -s <path>\<close> is invoked exactly when
  the value of \<open>SHELL\<close> differs from the located path. Line 134 also asks that the value
  is not the empty string: with \<open>SHELL\<close> set to the empty string the value differs from
  \<open>/usr/bin/zsh\<close>, the block returns, and no \<open>chsh\<close> is started.
\<close>

theorem change_shell_empty_SHELL_counterexample:
  "which sys_zsh ''zsh'' (environ (w_shell (Some ''''))) (fs (w_shell (Some ''''))) = Some ''/usr/bin/zsh''
   \<and> environ (w_shell (Some '''')) ''SHELL'' = Some ''''
   \<and> '''' \<noteq> ''/usr/bin/zsh''
   \<and> fst (change_shell sys_zsh (w_shell (Some ''''))) = Inr ()
   \<and> emitted (w_shell (Some '''')) (snd (change_shell sys_zsh (w_shell (Some ''''))))
       = [Print ''Checking default shell'']
   \<and> Spawn [''chsh'', ''-s'', ''/usr/bin/zsh'']
       \<notin> set (emitted (w_shell (Some '''')) (snd (change_shell sys_zsh (w_shell (Some '''')))))"
  by (simp add: change_shell_def which_sys_zsh py_print_def emitted_def w_shell_def)

text \<open>
  C5, amended: when \<open>which\<close> finds a path that is not empty and \<open>SHELL\<close> is set, the
  block starts \<open>chsh -s <path>\<close> exactly when the value of \<open>SHELL\<close> is not the empty
  string and differs from the path; it starts no other program.
\<close>

theorem change_shell_invokes_chsh_iff:
  assumes "which X ''zsh'' (environ w) (fs w) = Some zsh_path" and "zsh_path \<noteq> []"
    and "environ w ''SHELL'' = Some shell"
  shows "(Spawn [''chsh'', ''-s'', zsh_path] \<in> set (emitted w (snd (change_shell X w))))
           = (shell \<noteq> [] \<and> shell \<noteq> zsh_path)
     \<and> (\<forall>argv. Spawn argv \<in> set (emitted w (snd (change_shell X w)))
            \<longrightarrow> argv = [''chsh'', ''-s'', zsh_path])"
  by (simp add: change_shell_found[OF assms])

text \<open>With \<open>/bin/bash\<close> as the value \<open>chsh\<close> is started, with \<open>/usr/bin/zsh\<close> it is not.\<close>

theorem change_shell_invokes_chsh_iff_witness:
  "environ (w_shell (Some ''/bin/bash'')) ''SHELL'' = Some ''/bin/bash''
   \<and> Spawn [''chsh'', ''-s'', ''/usr/bin/zsh'']
       \<in> set (emitted (w_shell (Some ''/bin/bash'')) (snd (change_shell sys_zsh (w_shell (Some ''/bin/bash'')))))
   \<and> environ (w_shell (Some ''/usr/bin/zsh'')) ''SHELL'' = Some ''/usr/bin/zsh''
   \<and> Spawn [''chsh'', ''-s'', ''/usr/bin/zsh'']
       \<notin> set (emitted (w_shell (Some ''/usr/bin/zsh'')) (snd (change_shell sys_zsh (w_shell (Some ''/usr/bin/zsh'')))))"
proof -
  have a: "environ (w_shell (Some ''/bin/bash'')) ''SHELL'' = Some ''/bin/bash''"
    and b: "environ (w_shell (Some ''/usr/bin/zsh'')) ''SHELL'' = Some ''/usr/bin/zsh''"
    by (simp_all add: w_shell_def)
  have n: "''/usr/bin/zsh'' \<noteq> []" by simp
  from change_shell_invokes_chsh_iff [OF which_sys_zsh n a]
       change_shell_invokes_chsh_iff [OF which_sys_zsh n b] a b
  show ?thesis by simp
qed

text \<open>
  C10: when \<open>which\<close> finds a path that is not empty and \<open>SHELL\<close> is not set, the block
  raises \<open>KeyError\<close> after its first message, without starting a program; the
  interpreter ends with a traceback and status 1, not with the message of \<open>sys.exit\<close>
  and not with a normal return; and a run of \<open>main\<close> that reaches the block in this
  state ends with that \<open>KeyError\<close>.
\<close>

theorem change_shell_unset_SHELL:
  assumes "which X ''zsh'' (environ w) (fs w) = Some zsh_path" and "zsh_path \<noteq> []"
    and "environ w ''SHELL'' = None"
  shows "change_shell X w
           = (Inl (KeyError ''SHELL''), w\<lparr>trace := trace w @ [Print ''Checking default shell'']\<rparr>)
     \<and> stderr_output (fst (change_shell X w)) = Some (Traceback (KeyError ''SHELL''))
     \<and> exit_status (fst (change_shell X w)) = 1
     \<and> (\<forall>w0. before_shell X w0 = (Inr (), w) \<longrightarrow>
           main X w0 = (Inl (KeyError ''SHELL''),
                        w\<lparr>trace := trace w @ [Print ''Checking default shell'']\<rparr>))"
proof -
  from assms have c: "change_shell X w
           = (Inl (KeyError ''SHELL''), w\<lparr>trace := trace w @ [Print ''Checking default shell'']\<rparr>)"
    by (simp add: change_shell_def py_print_def)
  then show ?thesis
    by (simp add: main_after_before_shell)
qed

section \<open>Events and exceptions of whole blocks\<close>

lemma behavesI:
  assumes "\<And>w. \<exists>evs. trace (snd (f w)) = trace w @ evs \<and> list_all Q evs"
    and "\<And>w e. fst (f w) = Inl e \<Longrightarrow> E e"
  shows "behaves Q E f"
  using assms unfolding behaves_def by blast

lemma behaves_trace:
  "behaves Q E f \<Longrightarrow> \<exists>evs. trace (snd (f w)) = trace w @ evs \<and> list_all Q evs"
  unfolding behaves_def by blast

lemma behaves_exc: "behaves Q E f \<Longrightarrow> fst (f w) = Inl e \<Longrightarrow> E e"
  unfolding behaves_def by blast

lemma behaves_mono:
  assumes "behaves Q E f" and "\<And>e. Q e \<Longrightarrow> Q' e" and "\<And>e. E e \<Longrightarrow> E' e"
  shows "behaves Q' E' f"
proof (rule behavesI)
  fix w
  from behaves_trace[OF assms(1), of w] obtain evs
    where "trace (snd (f w)) = trace w @ evs" "list_all Q evs" by blast
  with assms(2) show "\<exists>evs. trace (snd (f w)) = trace w @ evs \<and> list_all Q' evs"
    by (auto simp: list_all_iff)
next
  fix w e assume "fst (f w) = Inl e"
  with assms(1,3) show "E' e" by (blast dest: behaves_exc)
qed

lemma behaves_eq: "(\<And>w. f w = g w) \<Longrightarrow> behaves Q E g \<Longrightarrow> behaves Q E f"
  by (simp add: behaves_def)

lemma behaves_return: "behaves Q E (\<lambda>w. (Inr x, w))"
  by (simp add: behaves_def)

lemma behaves_and_then:
  assumes f: "behaves Q E f" and g: "\<And>x. behaves Q E (g x)"
  shows "behaves Q E (\<lambda>w. and_then (f w) g)"
proof (rule behavesI)
  fix w
  obtain r w1 where fw: "f w = (r, w1)" by (cases "f w")
  from behaves_trace[OF f, of w] fw obtain evs1
    where e1: "trace w1 = trace w @ evs1" "list_all Q evs1" by auto
  show "\<exists>evs. trace (snd (and_then (f w) g)) = trace w @ evs \<and> list_all Q evs"
  proof (cases r)
    case (Inl e)
    with fw e1 show ?thesis by simp
  next
    case (Inr x)
    from behaves_trace[OF g, of x w1] obtain evs2
      where "trace (snd (g x w1)) = trace w1 @ evs2" "list_all Q evs2" by blast
    with fw Inr e1 have "trace (snd (and_then (f w) g)) = trace w @ (evs1 @ evs2)"
      and "list_all Q (evs1 @ evs2)" by simp_all
    then show ?thesis by blast
  qed
next
  fix w e assume a: "fst (and_then (f w) g) = Inl e"
  obtain r w1 where fw: "f w = (r, w1)" by (cases "f w")
  show "E e"
  proof (cases r)
    case (Inl e')
    with fw a behaves_exc[OF f, of w e'] show ?thesis by simp
  next
    case (Inr x)
    with fw a behaves_exc[OF g, of x w1 e] show ?thesis by simp
  qed
qed

lemma behaves_if:
  "behaves Q E f \<Longrightarrow> behaves Q E g \<Longrightarrow> behaves Q E (\<lambda>w. if b w then f w else g w)"
  by (simp add: behaves_def)

lemma behaves_try_finally:
  assumes b: "behaves Q E body" and f: "behaves Q E fin"
  shows "behaves Q E (try_finally body fin)"
proof (rule behavesI)
  fix w
  obtain r w1 where bw: "body w = (r, w1)" by (cases "body w")
  obtain r2 w2 where fw: "fin w1 = (r2, w2)" by (cases "fin w1")
  from behaves_trace[OF b, of w] bw obtain evs1
    where e1: "trace w1 = trace w @ evs1" "list_all Q evs1" by auto
  from behaves_trace[OF f, of w1] fw obtain evs2
    where e2: "trace w2 = trace w1 @ evs2" "list_all Q evs2" by auto
  have "snd (try_finally body fin w) = w2"
    using bw fw by (cases r2) (simp_all add: try_finally_def)
  with e1 e2 have "trace (snd (try_finally body fin w)) = trace w @ (evs1 @ evs2)"
    and "list_all Q (evs1 @ evs2)" by simp_all
  then show "\<exists>evs. trace (snd (try_finally body fin w)) = trace w @ evs \<and> list_all Q evs"
    by blast
next
  fix w e assume a: "fst (try_finally body fin w) = Inl e"
  obtain r w1 where bw: "body w = (r, w1)" by (cases "body w")
  obtain r2 w2 where fw: "fin w1 = (r2, w2)" by (cases "fin w1")
  show "E e"
  proof (cases r2)
    case (Inl e')
    with a bw fw behaves_exc[OF f, of w1 e'] show ?thesis by (simp add: try_finally_def)
  next
    case (Inr u)
    with a bw fw behaves_exc[OF b, of w e] show ?thesis by (simp add: try_finally_def)
  qed
qed

lemma behaves_print: "Q (Print (str_join '' '' args)) \<Longrightarrow> behaves Q E (py_print args)"
  by (simp add: behaves_def py_print_def)

lemma behaves_subprocess_run:
  "Q (Spawn parts) \<Longrightarrow> (\<And>e. E (OSError e)) \<Longrightarrow> behaves Q E (subprocess_run X parts)"
  unfolding behaves_def subprocess_run_def Let_def
  by (auto split: proc_result.splits)

lemma behaves_cmd:
  assumes "Q (Print (str_join '' '' (''RUN:'' # map esc parts)))" and "Q (Spawn parts)"
    and "\<And>e. E (OSError e)"
  shows "behaves Q E (cmd X parts)"
  by (rule behaves_eq[OF cmd_def])
     (intro behaves_and_then behaves_print behaves_subprocess_run behaves_return assms)

lemma behaves_cmd_output:
  assumes "Q (Print (str_join '' '' (''RUN:'' # map esc parts)))" and "Q (Spawn parts)"
    and "\<And>e. E (OSError e)" and "\<And>n. E (CalledProcessError n)" and "E UnicodeDecodeError"
  shows "behaves Q E (cmd_output X parts)"
proof -
  have "behaves Q E (\<lambda>w2. if status \<noteq> 0 then (Inl (CalledProcessError status), w2)
       else (case out of None \<Rightarrow> (Inl UnicodeDecodeError, w2)
             | Some text \<Rightarrow> (Inr (str_strip text), w2)))" for status :: int and out
    using assms(4,5) by (cases out) (simp_all add: behaves_def)
  then have "behaves Q E ((\<lambda>(status, out) w2. if status \<noteq> 0 then (Inl (CalledProcessError status), w2)
       else (case out of None \<Rightarrow> (Inl UnicodeDecodeError, w2)
             | Some text \<Rightarrow> (Inr (str_strip text), w2))) x)" for x :: "int \<times> string option"
    by (cases x) simp
  then show ?thesis
    by (intro behaves_eq[OF cmd_output_def] behaves_and_then behaves_print
        behaves_subprocess_run assms)
qed

lemma behaves_chdir: "(\<And>e. E (OSError e)) \<Longrightarrow> behaves Q E (chdir d)"
  by (auto simp: behaves_def chdir_def split: option.splits node.splits)

lemma behaves_pushd: "(\<And>e. E (OSError e)) \<Longrightarrow> behaves Q E (pushd d)"
  by (auto simp: behaves_def pushd_def getcwd_def chdir_def split: option.splits node.splits)

lemma behaves_popd: "(\<And>e. E (OSError e)) \<Longrightarrow> E IndexError \<Longrightarrow> behaves Q E popd"
  by (auto simp: behaves_def popd_def chdir_def split: option.splits node.splits)

lemma behaves_read_text: "(\<And>e. E (OSError e)) \<Longrightarrow> behaves Q E (read_text p)"
  by (auto simp: behaves_def read_text_def split: option.splits node.splits)

lemma behaves_write_text: "(\<And>e. E (OSError e)) \<Longrightarrow> behaves Q E (write_text p s)"
  by (auto simp: behaves_def write_text_def split: option.splits node.splits)

lemma behaves_append_text: "(\<And>e. E (OSError e)) \<Longrightarrow> behaves Q E (append_text p s)"
  by (auto simp: behaves_def append_text_def split: option.splits node.splits)

text \<open>
  The blocks before the default shell start no \<open>chsh\<close> and raise no \<open>SystemExit\<close>.
\<close>

lemma not_chsh_simps [simp]:
  "not_chsh (Print s)"
  "not_chsh (Spawn (''sudo'' # args))"
  "not_chsh (Spawn (''git'' # args))"
  "not_chsh (Spawn (''touch'' # args))"
  "not_chsh (Spawn (''mkdir'' # args))"
  "not_chsh (Spawn (''curl'' # args))"
  by (simp_all add: not_chsh_def)

lemma not_exit_simps [simp]:
  "not_exit (OSError e)" "not_exit (CalledProcessError n)" "not_exit UnicodeDecodeError"
  "not_exit (KeyError k)" "not_exit IndexError" "\<not> not_exit (SystemExit m)"
  by (simp_all add: not_exit_def)

lemmas behaves_rules =
  behaves_and_then behaves_if behaves_return behaves_try_finally behaves_print behaves_cmd
  behaves_cmd_output behaves_pushd behaves_popd behaves_read_text behaves_write_text
  behaves_append_text

lemma behaves_install_tools: "behaves not_chsh not_exit (install_tools X)"
  by (rule behaves_eq[OF install_tools_def]) (intro behaves_rules; simp add: REQUIRED_TOOLS_def)

lemma behaves_check_asdf: "behaves not_chsh not_exit (check_asdf X)"
  by (rule behaves_eq[OF check_asdf_def]) (intro behaves_rules; simp)

lemma behaves_asdf_body: "behaves not_chsh not_exit (asdf_body X)"
  by (rule behaves_eq[OF asdf_body_def]) (intro behaves_rules; simp add: describe_argv)

lemma behaves_asdf_block: "behaves not_chsh not_exit (asdf_block X)"
  unfolding asdf_block_def
  by (intro behaves_try_finally behaves_asdf_body behaves_popd; simp)

lemma behaves_update_asdf: "behaves not_chsh not_exit (update_asdf X)"
  by (rule behaves_eq[OF update_asdf_def])
     (intro behaves_and_then behaves_print behaves_asdf_block; simp)

lemma behaves_ensure_files: "behaves not_chsh not_exit (ensure_files X)"
  by (rule behaves_eq[OF ensure_files_def]) (intro behaves_rules; simp)

lemma behaves_install_antigen: "behaves not_chsh not_exit (install_antigen X)"
  by (rule behaves_eq[OF install_antigen_def]) (intro behaves_rules; simp)

lemma behaves_write_config: "behaves not_chsh not_exit (write_config X)"
  by (rule behaves_eq[OF write_config_def]) (intro behaves_rules; simp)

lemma behaves_link_config: "behaves not_chsh not_exit (link_config X)"
  by (rule behaves_eq[OF link_config_def]) (intro behaves_rules; simp)

lemmas behaves_blocks =
  behaves_install_tools behaves_check_asdf behaves_update_asdf behaves_ensure_files
  behaves_install_antigen behaves_write_config behaves_link_config

lemma behaves_before_shell: "behaves not_chsh not_exit (before_shell X)"
  by (rule behaves_eq[OF before_shell_def]) (intro behaves_and_then behaves_blocks)

lemma and_then_grows:
  assumes "\<And>x. behaves Q E (g x)"
  shows "\<exists>evs. trace (snd (and_then m g)) = trace (snd m) @ evs"
proof (cases m)
  case (Pair r w)
  show ?thesis
  proof (cases r)
    case (Inl e)
    with Pair show ?thesis by simp
  next
    case (Inr x)
    with Pair behaves_trace[OF assms, of x w] show ?thesis by auto
  qed
qed

lemma and_then_grows2:
  assumes "\<And>x. behaves Q E (g x)" and "\<And>x. behaves Q E (h x)"
  shows "\<exists>evs. trace (snd (and_then (and_then m g) h)) = trace (snd m) @ evs"
proof -
  from and_then_grows[where g = h and m = "and_then m g", OF assms(2)] obtain e2
    where "trace (snd (and_then (and_then m g) h)) = trace (snd (and_then m g)) @ e2" by blast
  moreover from and_then_grows[where g = g and m = m, OF assms(1)] obtain e1
    where "trace (snd (and_then m g)) = trace (snd m) @ e1" by blast
  ultimately show ?thesis by simp
qed

lemma behaves_any: "behaves Q E f \<Longrightarrow> behaves (\<lambda>e. True) (\<lambda>e. True) f"
  by (erule behaves_mono) simp_all

lemma behaves_change_shell: "behaves (\<lambda>e. True) (\<lambda>e. True) (change_shell X)"
  by (auto simp: behaves_def change_shell_def py_print_def cmd_def subprocess_run_def Let_def
      list_all_iff split: option.splits proc_result.splits)

lemma check_asdf_first:
  "\<exists>rest. trace (snd (check_asdf X w)) = trace w @ Print ''Checking for asdf'' # rest"
  by (auto simp: check_asdf_def py_print_def cmd_def subprocess_run_def Let_def
      split: proc_result.splits)

lemma main_after_install_tools:
  assumes "install_tools X w = (Inr (), w1)"
  shows "\<exists>evs. trace (snd (main X w)) = trace (snd (check_asdf X w1)) @ evs"
  unfolding main_def before_shell_def assms and_then_Inr
  by (rule and_then_grows2[where Q = "\<lambda>e. True" and E = "\<lambda>e. True"])
     (intro behaves_and_then behaves_any[OF behaves_update_asdf]
        behaves_any[OF behaves_ensure_files] behaves_any[OF behaves_install_antigen]
        behaves_any[OF behaves_write_config] behaves_any[OF behaves_link_config]
        behaves_change_shell behaves_print; simp)+

lemma install_tools_runs:
  assumes "spawn X [''sudo'', ''apt'', ''update''] (cwd w) (environ w) (fs w) = Exited s1 o1 f1"
    and "spawn X [''sudo'', ''apt'', ''install'', ''zsh'', ''git'', ''neovim'', ''byobu'']
           (cwd w) (environ w) f1 = Exited s2 o2 f2"
  shows "install_tools X w =
     (Inr (), w\<lparr>trace := trace w @
        [Print ''Installing required tools: zsh, git, neovim, byobu'',
         Print ''RUN: sudo apt update'',
         Spawn [''sudo'', ''apt'', ''update''],
         Print ''RUN: sudo apt install zsh git neovim byobu'',
         Spawn [''sudo'', ''apt'', ''install'', ''zsh'', ''git'', ''neovim'', ''byobu'']],
       fs := f2\<rparr>)"
  using assms
  by (simp add: install_tools_def cmd_def py_print_def subprocess_run_def Let_def
      REQUIRED_TOOLS_def esc_def string_whitespace_def)

section \<open>Complete runs on the concrete machines\<close>

lemmas run_defs = before_shell_def install_tools_def check_asdf_def update_asdf_def asdf_block_def
  try_finally_def asdf_body_def ensure_files_def install_antigen_def write_config_def
  link_config_def cmd_def cmd_output_def subprocess_run_def py_print_def pushd_def popd_def
  getcwd_def chdir_def read_text_def write_text_def append_text_def is_dir_def
  asdf_path_def zshrc_path_def ssh_dir_path_def antigen_path_def config_path_def path_join_def
  describe_argv Let_def CONFIG_FILENAME_def found_line_def file_lines_def is_source_line_def
  zshrc_line_def str_rstrip_def isspace_def str_strip_def str_lstrip_def spawn_ok_def
  w_shell_def w_start_def

lemma before_shell_sys_zsh: "fst (before_shell sys_zsh (w_shell None)) = Inr ()"
  by (simp add: run_defs sys_zsh_def)

lemma before_shell_sys_zsh_environ:
  "environ (snd (before_shell sys_zsh (w_shell None))) ''SHELL'' = None"
  by (simp add: run_defs sys_zsh_def)

lemma before_shell_sys_no_zsh: "fst (before_shell sys_no_zsh w_start) = Inr ()"
  by (simp add: run_defs sys_no_zsh_def)

lemma spawn_sys_failing: "spawn sys_failing argv d env f = Exited 100 (Some []) f"
  by (simp add: sys_failing_def)

text \<open>
  A run on the machine with \<open>zsh\<close> and without the variable \<open>SHELL\<close>: the blocks before
  the default shell return, and \<open>main\<close> ends with \<open>KeyError\<close>.
\<close>

theorem change_shell_unset_SHELL_witness:
  "fst (before_shell sys_zsh (w_shell None)) = Inr ()
   \<and> environ (snd (before_shell sys_zsh (w_shell None))) ''SHELL'' = None
   \<and> main sys_zsh (w_shell None) =
       (Inl (KeyError ''SHELL''),
        (snd (before_shell sys_zsh (w_shell None)))
          \<lparr>trace := trace (snd (before_shell sys_zsh (w_shell None))) @ [Print ''Checking default shell'']\<rparr>)
   \<and> stderr_output (fst (main sys_zsh (w_shell None))) = Some (Traceback (KeyError ''SHELL''))
   \<and> exit_status (fst (main sys_zsh (w_shell None))) = 1"
proof -
  let ?w = "snd (before_shell sys_zsh (w_shell None))"
  have b: "before_shell sys_zsh (w_shell None) = (Inr (), ?w)"
    using before_shell_sys_zsh by (simp add: prod_eq_iff)
  have n: "''/usr/bin/zsh'' \<noteq> []" by simp
  from change_shell_unset_SHELL [OF which_sys_zsh n before_shell_sys_zsh_environ]
  have m: "main sys_zsh (w_shell None) =
       (Inl (KeyError ''SHELL''), ?w\<lparr>trace := trace ?w @ [Print ''Checking default shell'']\<rparr>)"
    using b by blast
  from m before_shell_sys_zsh before_shell_sys_zsh_environ show ?thesis by simp
qed

section \<open>The exit when zsh is not found\<close>

text \<open>
  C6: when \<open>which\<close> finds nothing (\<open>None\<close>, or an empty path), the block raises
  \<open>SystemExit\<close> with the message \<open>Unable to change default shell!\<close> and leaves the state
  as it was, so it prints nothing and starts nothing; the interpreter writes the message to
  standard error and ends with status 1; a run of \<open>main\<close> that reaches the block in this
  state ends there, in that state, and has started no \<open>chsh\<close>. And this is the only exit
  of that kind: whenever \<open>main\<close> ends with \<open>SystemExit\<close>, the blocks before the default
  shell had returned, \<open>which\<close> found nothing, and the message is that one.
\<close>

theorem shell_not_found_exits:
  "(which X ''zsh'' (environ w) (fs w) = None \<or> which X ''zsh'' (environ w) (fs w) = Some [] \<longrightarrow>
      change_shell X w = (Inl (SystemExit ''Unable to change default shell!''), w)
      \<and> exit_status (fst (change_shell X w)) = 1
      \<and> stderr_output (fst (change_shell X w)) = Some (Message ''Unable to change default shell!'')
      \<and> (\<forall>v. before_shell X v = (Inr (), w) \<longrightarrow>
            main X v = (Inl (SystemExit ''Unable to change default shell!''), w)
            \<and> (\<forall>args. Spawn (''chsh'' # args) \<notin> set (emitted v w))))
   \<and> (\<forall>m. fst (main X w0) = Inl (SystemExit m) \<longrightarrow>
        m = ''Unable to change default shell!''
        \<and> fst (before_shell X w0) = Inr ()
        \<and> (which X ''zsh'' (environ (snd (before_shell X w0))) (fs (snd (before_shell X w0))) = None
           \<or> which X ''zsh'' (environ (snd (before_shell X w0))) (fs (snd (before_shell X w0))) = Some []))"
proof (intro conjI impI allI)
  assume nf: "which X ''zsh'' (environ w) (fs w) = None \<or> which X ''zsh'' (environ w) (fs w) = Some []"
  note c = change_shell_not_found[OF nf]
  show "change_shell X w = (Inl (SystemExit ''Unable to change default shell!''), w)" by (rule c)
  show "exit_status (fst (change_shell X w)) = 1" by (simp add: c)
  show "stderr_output (fst (change_shell X w)) = Some (Message ''Unable to change default shell!'')"
    by (simp add: c)
  fix v assume b: "before_shell X v = (Inr (), w)"
  show "main X v = (Inl (SystemExit ''Unable to change default shell!''), w)"
    by (simp add: main_after_before_shell[OF b] c)
  fix args
  from behaves_trace[OF behaves_before_shell, of X v] b obtain evs
    where "trace w = trace v @ evs" "list_all not_chsh evs" by auto
  then show "Spawn (''chsh'' # args) \<notin> set (emitted v w)"
    by (auto simp: emitted_def list_all_iff not_chsh_def)
next
  fix m assume a: "fst (main X w0) = Inl (SystemExit m)"
  obtain r w7 where b: "before_shell X w0 = (r, w7)" by (cases "before_shell X w0")
  have r: "r = Inr ()"
  proof (cases r)
    case (Inl e)
    with a b have "e = SystemExit m" by (simp add: main_def)
    with behaves_exc[OF behaves_before_shell, of X w0 e] b Inl show ?thesis by simp
  next
    case (Inr u)
    then show ?thesis by simp
  qed
  with b have "main X w0 = and_then (change_shell X w7) (\<lambda>u w8.
     py_print [''Done! You probably have to log out and back in again. Enjoy!''] w8)"
    by (simp add: main_after_before_shell)
  with a have "fst (change_shell X w7) = Inl (SystemExit m)"
    by (cases "change_shell X w7"; cases "fst (change_shell X w7)") (auto simp: py_print_def)
  from change_shell_exit_only[OF this] b r
  show "m = ''Unable to change default shell!''"
    and "fst (before_shell X w0) = Inr ()"
    and "which X ''zsh'' (environ (snd (before_shell X w0))) (fs (snd (before_shell X w0))) = None
           \<or> which X ''zsh'' (environ (snd (before_shell X w0))) (fs (snd (before_shell X w0))) = Some []"
    by simp_all
qed

text \<open>A complete run on the machine without \<open>zsh\<close>.\<close>

theorem shell_not_found_exits_witness:
  "fst (before_shell sys_no_zsh w_start) = Inr ()
   \<and> which sys_no_zsh ''zsh'' (environ (snd (before_shell sys_no_zsh w_start)))
        (fs (snd (before_shell sys_no_zsh w_start))) = None
   \<and> main sys_no_zsh w_start
       = (Inl (SystemExit ''Unable to change default shell!''), snd (before_shell sys_no_zsh w_start))
   \<and> exit_status (fst (main sys_no_zsh w_start)) = 1
   \<and> stderr_output (fst (main sys_no_zsh w_start)) = Some (Message ''Unable to change default shell!'')
   \<and> Spawn [''chsh'', ''-s'', ''/usr/bin/zsh'']
        \<notin> set (emitted w_start (snd (main sys_no_zsh w_start)))"
proof -
  let ?w = "snd (before_shell sys_no_zsh w_start)"
  have b: "before_shell sys_no_zsh w_start = (Inr (), ?w)"
    using before_shell_sys_no_zsh by (simp add: prod_eq_iff)
  have nf: "which sys_no_zsh ''zsh'' (environ ?w) (fs ?w) = None"
    by (simp add: sys_no_zsh_def)
  from shell_not_found_exits [of sys_no_zsh ?w w_start] nf b
  have m: "main sys_no_zsh w_start = (Inl (SystemExit ''Unable to change default shell!''), ?w)"
    and c: "Spawn [''chsh'', ''-s'', ''/usr/bin/zsh''] \<notin> set (emitted w_start ?w)"
    by blast+
  from m c nf before_shell_sys_no_zsh show ?thesis by simp
qed

section \<open>The required tools\<close>

text \<open>
  C8: when \<open>sudo apt update\<close> and \<open>sudo apt install zsh git neovim byobu\<close> both run,
  whatever their exit statuses, the block returns; it has printed its message and started
  the refresh and then one install with all four names, each logged before it is
  started; and \<open>main\<close> goes on to \<open>Checking for asdf\<close>.
\<close>

theorem install_tools_continues:
  assumes "spawn X [''sudo'', ''apt'', ''update''] (cwd w) (environ w) (fs w) = Exited s1 o1 f1"
    and "spawn X [''sudo'', ''apt'', ''install'', ''zsh'', ''git'', ''neovim'', ''byobu'']
           (cwd w) (environ w) f1 = Exited s2 o2 f2"
  shows "fst (install_tools X w) = Inr ()
     \<and> emitted w (snd (install_tools X w)) =
        [Print ''Installing required tools: zsh, git, neovim, byobu'',
         Print ''RUN: sudo apt update'',
         Spawn [''sudo'', ''apt'', ''update''],
         Print ''RUN: sudo apt install zsh git neovim byobu'',
         Spawn [''sudo'', ''apt'', ''install'', ''zsh'', ''git'', ''neovim'', ''byobu'']]
     \<and> (\<exists>rest. emitted w (snd (main X w)) =
        [Print ''Installing required tools: zsh, git, neovim, byobu'',
         Print ''RUN: sudo apt update'',
         Spawn [''sudo'', ''apt'', ''update''],
         Print ''RUN: sudo apt install zsh git neovim byobu'',
         Spawn [''sudo'', ''apt'', ''install'', ''zsh'', ''git'', ''neovim'', ''byobu''],
         Print ''Checking for asdf''] @ rest)"
proof -
  note it = install_tools_runs[OF assms]
  from main_after_install_tools[OF it] obtain evs
    where m: "trace (snd (main X w)) = trace (snd (check_asdf X
       (w\<lparr>trace := trace w @
        [Print ''Installing required tools: zsh, git, neovim, byobu'',
         Print ''RUN: sudo apt update'',
         Spawn [''sudo'', ''apt'', ''update''],
         Print ''RUN: sudo apt install zsh git neovim byobu'',
         Spawn [''sudo'', ''apt'', ''install'', ''zsh'', ''git'', ''neovim'', ''byobu'']],
       fs := f2\<rparr>))) @ evs" by blast
  from check_asdf_first obtain rest
    where c: "trace (snd (check_asdf X
       (w\<lparr>trace := trace w @
        [Print ''Installing required tools: zsh, git, neovim, byobu'',
         Print ''RUN: sudo apt update'',
         Spawn [''sudo'', ''apt'', ''update''],
         Print ''RUN: sudo apt install zsh git neovim byobu'',
         Spawn [''sudo'', ''apt'', ''install'', ''zsh'', ''git'', ''neovim'', ''byobu'']],
       fs := f2\<rparr>))) = trace (w\<lparr>trace := trace w @
        [Print ''Installing required tools: zsh, git, neovim, byobu'',
         Print ''RUN: sudo apt update'',
         Spawn [''sudo'', ''apt'', ''update''],
         Print ''RUN: sudo apt install zsh git neovim byobu'',
         Spawn [''sudo'', ''apt'', ''install'', ''zsh'', ''git'', ''neovim'', ''byobu'']],
       fs := f2\<rparr>) @ Print ''Checking for asdf'' # rest" by blast
  have "emitted w (snd (main X w)) =
        [Print ''Installing required tools: zsh, git, neovim, byobu'',
         Print ''RUN: sudo apt update'',
         Spawn [''sudo'', ''apt'', ''update''],
         Print ''RUN: sudo apt install zsh git neovim byobu'',
         Spawn [''sudo'', ''apt'', ''install'', ''zsh'', ''git'', ''neovim'', ''byobu''],
         Print ''Checking for asdf''] @ (rest @ evs)"
    unfolding emitted_def m c by simp
  then show ?thesis
    by (simp add: it emitted_def)
qed

text \<open>A run on the machine where every program exits with status 100.\<close>

theorem install_tools_continues_witness:
  "spawn sys_failing [''sudo'', ''apt'', ''update''] (cwd w_start) (environ w_start) (fs w_start)
     = Exited 100 (Some []) (fs w_start)
   \<and> spawn sys_failing [''sudo'', ''apt'', ''install'', ''zsh'', ''git'', ''neovim'', ''byobu'']
       (cwd w_start) (environ w_start) (fs w_start) = Exited 100 (Some []) (fs w_start)
   \<and> fst (install_tools sys_failing w_start) = Inr ()
   \<and> (\<exists>rest. emitted w_start (snd (main sys_failing w_start)) =
        [Print ''Installing required tools: zsh, git, neovim, byobu'',
         Print ''RUN: sudo apt update'',
         Spawn [''sudo'', ''apt'', ''update''],
         Print ''RUN: sudo apt install zsh git neovim byobu'',
         Spawn [''sudo'', ''apt'', ''install'', ''zsh'', ''git'', ''neovim'', ''byobu''],
         Print ''Checking for asdf''] @ rest)"
  using install_tools_continues [OF spawn_sys_failing spawn_sys_failing, of w_start]
  by (simp add: spawn_sys_failing)

end
